theory Spec2Isabelle
  imports Complex_Main
begin

section \<open>Data model (types of the game store)\<close>

text \<open>
  The store keeps JavaScript numbers. Counters, costs, scores and millisecond timestamps
  (\<open>Date.now()\<close>) are integers and are modelled as \<open>int\<close>; health values, the day clock
  and frame deltas are modelled as \<open>real\<close>. Arithmetic on them is exact, except in
  \<open>updateTime\<close>, where every operation rounds its result to a double (see the section on
  double arithmetic). A tuple \<open>[number, number, number]\<close> is a triple of reals.
\<close>

type_synonym vec3 = "real \<times> real \<times> real"

datatype GamePhase = START | PLAYING | GAMEOVER

datatype CameraMode = FOLLOW | TOP_DOWN | BEHIND | CINEMATIC

datatype TreeSize = small | medium | large

record TreeData =
  tree_id :: string
  tree_position :: vec3
  tree_health :: real
  tree_maxHealth :: real
  tree_size :: TreeSize
  tree_isFelled :: bool

record LogData =
  log_id :: string
  log_position :: vec3
  log_rotation :: vec3
  log_isLocked :: bool
  log_createdAt :: int

record LooseLogData =
  loose_id :: string
  loose_position :: vec3
  loose_rotation :: vec3
  loose_createdAt :: int

record BoulderData =
  boulder_id :: string
  boulder_position :: vec3
  boulder_scale :: real

record Blueprint =
  bp_id :: string
  bp_name :: string
  bp_cost :: int
  bp_logs :: "(vec3 \<times> vec3) list"
  bp_unlocked :: bool
  bp_unlockScore :: "int option"

record PlacedStructure =
  ps_id :: string
  ps_blueprintId :: string
  ps_position :: vec3
  ps_rotation :: vec3
  ps_health :: real
  ps_maxHealth :: real

record ComboState =
  active :: bool
  startTime :: int
  logsCollected :: int
  multiplier :: int
  lastLogTime :: int
  logsSinceLastLevel :: int
  levelStartTime :: int

datatype NotificationType = unlock | achievement | info

text \<open>The store builds its \<open>info\<close> notifications without an \<open>id\<close>, so the field is optional here.\<close>

record Notification =
  n_id :: "string option"
  n_title :: string
  n_message :: string
  n_type :: NotificationType
  n_blueprintId :: "string option"

datatype MobType = wolf | bear

record MobData =
  mob_id :: string
  mob_position :: vec3
  mob_velocity :: vec3
  mob_type :: MobType
  mob_createdAt :: int

datatype FoodType = apple | berry

record FoodData =
  food_id :: string
  food_position :: vec3
  food_rotation :: vec3
  food_createdAt :: int
  food_type :: FoodType

text \<open>The data fields of \<open>GameState\<close> (its other members are the actions, modelled below as functions).\<close>

record GameState =
  phase :: GamePhase
  cameraMode :: CameraMode
  woodCount :: int
  score :: int
  totalLogsCollected :: int
  notification :: "Notification option"
  damIntegrity :: real
  trees :: "TreeData list"
  logs :: "LogData list"
  looseLogs :: "LooseLogData list"
  boulders :: "BoulderData list"
  woodchuckPosition :: vec3
  activeTreeId :: "string option"
  blueprints :: "Blueprint list"
  placedStructures :: "PlacedStructure list"
  isPlacementMode :: bool
  isBuildMenuOpen :: bool
  selectedBlueprintId :: "string option"
  placementRotation :: vec3
  destroyTargetId :: "string option"
  isDestroying :: bool
  isPaused :: bool
  lastPauseStartTime :: int
  combo :: ComboState
  lastChompTime :: int
  treesChomped :: "int list"
  isTreePowerupActive :: bool
  treePowerupEndTime :: int
  hasSeenTreePowerupPopup :: bool
  isLogPowerupActive :: bool
  logPowerupEndTime :: int
  hasSeenLogPowerupPopup :: bool
  timeOfDay :: real
  dayDuration :: real
  mobs :: "MobData list"
  food :: "FoodData list"
  health :: real
  maxHealth :: real

text \<open>Reading a property of \<open>undefined\<close> throws; the store state is then left as it was.\<close>

datatype error = TypeError

section \<open>Template strings\<close>

definition digits :: string where
  "digits = ''0123456789''"

function show_nat :: "nat \<Rightarrow> string" where
  "show_nat n = (if n < 10 then [digits ! n] else show_nat (n div 10) @ [digits ! (n mod 10)])"
  by pat_completeness auto
termination
  by (relation "measure (\<lambda>n. n)") auto

declare show_nat.simps [simp del]

definition show_int :: "int \<Rightarrow> string" where
  "show_int i = (if i < 0 then CHR ''-'' # show_nat (nat (- i)) else show_nat (nat i))"

section \<open>Log collection: combo, scoring and blueprint unlocks\<close>

text \<open>
  Every action is an updater passed to the store's \<open>set\<close>: it reads the current state and
  returns the fields to overwrite; returning \<open>{}\<close> leaves the state as it is. The model
  returns the merged state. \<open>Date.now()\<close> is an input of the model: \<open>now\<close> is the first
  read of an action and further reads get parameters of their own.
\<close>

definition freshCombo :: "int \<Rightarrow> ComboState" where
  "freshCombo now =
     \<lparr>active = True, startTime = now, logsCollected = 0, multiplier = 1,
      lastLogTime = now, logsSinceLastLevel = 0, levelStartTime = now\<rparr>"

text \<open>
  The level-up chain of \<open>collectLooseLog\<close> (\<open>if (multiplier === 1) ... else if (=== 2) ...
  else if (=== 3)\<close>), on the combo and the points gained so far.
\<close>

definition levelUp :: "int \<Rightarrow> ComboState \<times> int \<Rightarrow> ComboState \<times> int" where
  "levelUp now cp =
     (case cp of (c, pointsGained) \<Rightarrow>
        if multiplier c = 1 then
          (if logsCollected c \<ge> 2 \<and> now - startTime c < 40000
           then (c\<lparr>multiplier := 2, logsSinceLastLevel := 0, levelStartTime := now\<rparr>, pointsGained + 1)
           else (c, pointsGained))
        else if multiplier c = 2 then
          (if logsSinceLastLevel c \<ge> 2 \<and> now - levelStartTime c < 30000
           then (c\<lparr>multiplier := 3, logsSinceLastLevel := 0, levelStartTime := now\<rparr>, pointsGained + 2)
           else (c, pointsGained))
        else if multiplier c = 3 then
          (if logsSinceLastLevel c \<ge> 2 \<and> now - levelStartTime c < 25000
           then (c\<lparr>multiplier := 4, logsSinceLastLevel := 0, levelStartTime := now\<rparr>, pointsGained + 3)
           else (c, pointsGained))
        else (c, pointsGained))"

text \<open>"Reset logic if too slow": only the progress counter and the level start are reset.\<close>

definition slowReset :: "int \<Rightarrow> ComboState \<Rightarrow> ComboState" where
  "slowReset now c =
     (if multiplier c \<ge> 2 then
        (let timeout = (if multiplier c = 2 then 30000 else 25000) in
         if now - levelStartTime c > timeout
         then c\<lparr>logsSinceLastLevel := 1, levelStartTime := now\<rparr>
         else c)
      else c)"

text \<open>The combo update of one collection: the new combo and the points gained.\<close>

definition updateCombo :: "int \<Rightarrow> ComboState \<Rightarrow> ComboState \<times> int" where
  "updateCombo now c0 =
     (let c1 = (if \<not> active c0 then freshCombo now else c0);
          c2 = c1\<lparr>logsCollected := logsCollected c1 + 1,
                  logsSinceLastLevel := logsSinceLastLevel c1 + 1,
                  lastLogTime := now\<rparr>;
          pointsGained = (if multiplier c2 > 1 then multiplier c2 - 1 else 0);
          cp = levelUp now (c2, pointsGained)
      in (slowReset now (fst cp), snd cp))"

definition magnetNotification :: Notification where
  "magnetNotification =
     \<lparr>n_id = None, n_title = ''MAGNETIC LOGS ACTIVATED!'',
      n_message = ''You reached a 3x Multiplier! For the next 30 seconds, your collection radius is massive! Gather everything!'',
      n_type = info, n_blueprintId = None\<rparr>"

text \<open>
  "Log Powerup Logic": from the new combo and the state, the values of
  \<open>isLogPowerupActive\<close>, \<open>logPowerupEndTime\<close>, \<open>hasSeenLogPowerupPopup\<close>,
  \<open>notification\<close> and \<open>shouldPause\<close>.
\<close>

definition logPowerup ::
  "int \<Rightarrow> ComboState \<Rightarrow> GameState \<Rightarrow> bool \<times> int \<times> bool \<times> Notification option \<times> bool" where
  "logPowerup now newCombo state =
     (if multiplier newCombo \<ge> 3 \<and> \<not> isLogPowerupActive state then
        (if \<not> hasSeenLogPowerupPopup state
         then (True, now + 30000, True, Some magnetNotification, True)
         else (True, now + 30000, hasSeenLogPowerupPopup state, notification state, False))
      else (isLogPowerupActive state, logPowerupEndTime state, hasSeenLogPowerupPopup state,
            notification state, False))"

definition milestoneNotification :: "int \<Rightarrow> Notification" where
  "milestoneNotification newTotalLogs =
     \<lparr>n_id = Some (''log-milestone-'' @ show_int newTotalLogs), n_title = ''LOG MASTER!'',
      n_message = ''Collected '' @ show_int newTotalLogs @ '' logs! +10 Points'',
      n_type = achievement, n_blueprintId = None\<rparr>"

text \<open>"Update Total Logs and Milestones", on \<open>pointsGained\<close>, \<open>notification\<close> and \<open>shouldPause\<close>.\<close>

definition milestone ::
  "int \<Rightarrow> int \<times> Notification option \<times> bool \<Rightarrow> int \<times> Notification option \<times> bool" where
  "milestone newTotalLogs v =
     (case v of (pointsGained, notif, shouldPause) \<Rightarrow>
        if newTotalLogs mod 50 = 0
        then (pointsGained + 10, Some (milestoneNotification newTotalLogs), True)
        else (pointsGained, notif, shouldPause))"

definition thresholds :: "int list" where
  "thresholds = [0, 150, 300, 500, 750, 1050, 1400, 1800, 2250, 2750]"

definition unlockNotification :: "nat \<Rightarrow> Blueprint \<Rightarrow> Notification" where
  "unlockNotification i b =
     \<lparr>n_id = Some (''unlock-bp-'' @ show_nat i), n_title = ''NEW BLUEPRINT!'',
      n_message = ''Unlocked: '' @ bp_name b, n_type = unlock, n_blueprintId = Some (bp_id b)\<rparr>"

text \<open>
  The variables the unlock code works on: \<open>newBlueprints\<close>, \<open>newScore\<close>, \<open>notification\<close>,
  \<open>shouldPause\<close>.
\<close>

type_synonym sweep = "Blueprint list \<times> int \<times> Notification option \<times> bool"

text \<open>"BP 0: 3 Logs Total". \<open>newBlueprints[0].unlocked\<close> throws on an empty catalog.\<close>

definition unlockFirst :: "int \<Rightarrow> sweep \<Rightarrow> error + sweep" where
  "unlockFirst newTotalLogs v =
     (case v of (bps, newScore, notif, shouldPause) \<Rightarrow>
        (case bps of
           [] \<Rightarrow> Inl TypeError
         | b0 # _ \<Rightarrow>
             if \<not> bp_unlocked b0 \<and> newTotalLogs \<ge> 3
             then (let b = b0\<lparr>bp_unlocked := True\<rparr>
                   in Inr (bps[0 := b], newScore + 100, Some (unlockNotification 0 b), True))
             else Inr (bps, newScore, notif, shouldPause)))"

text \<open>
  The loop \<open>for (let i = 1; i < thresholds.length; i++)\<close>, over the indices still to visit.
  \<open>newBlueprints[i].unlocked\<close> throws when the catalog has no entry \<open>i\<close>.
\<close>

fun unlockLoop :: "nat list \<Rightarrow> sweep \<Rightarrow> error + sweep" where
  "unlockLoop [] v = Inr v"
| "unlockLoop (i # js) (bps, newScore, notif, shouldPause) =
     (if i < length bps then
        (if \<not> bp_unlocked (bps ! i) \<and> newScore \<ge> thresholds ! i
         then (let b = (bps ! i)\<lparr>bp_unlocked := True\<rparr>
               in unlockLoop js (bps[i := b], newScore + 100, Some (unlockNotification i b), True))
         else unlockLoop js (bps, newScore, notif, shouldPause))
      else Inl TypeError)"

text \<open>
  The body of a collection after the two early returns, without the removal of the
  collected entity. \<open>collectLog\<close> repeats these statements of \<open>collectLooseLog\<close> word for
  word, so both use this definition. \<open>now2\<close> is the second \<open>Date.now()\<close>, read for
  \<open>lastPauseStartTime\<close>.
\<close>

definition collectCommon :: "int \<Rightarrow> int \<Rightarrow> GameState \<Rightarrow> error + GameState" where
  "collectCommon now now2 state =
     (let cp = updateCombo now (combo state);
          newCombo = fst cp;
          lp = logPowerup now newCombo state;
          newTotalLogs = totalLogsCollected state + 1;
          ms = milestone newTotalLogs (snd cp, snd (snd (snd lp)));
          newScore = score state + fst ms
      in case unlockFirst newTotalLogs (blueprints state, newScore, snd ms) of
           Inl e \<Rightarrow> Inl e
         | Inr v \<Rightarrow>
            (case unlockLoop [1..<length thresholds] v of
               Inl e \<Rightarrow> Inl e
             | Inr (newBlueprints, newScore', notif, shouldPause) \<Rightarrow>
                 Inr (state\<lparr>woodCount := woodCount state + 1 * multiplier newCombo,
                             score := newScore',
                             totalLogsCollected := newTotalLogs,
                             combo := newCombo,
                             blueprints := newBlueprints,
                             notification := notif,
                             isPaused := shouldPause,
                             lastPauseStartTime :=
                               (if shouldPause then now2 else lastPauseStartTime state),
                             isLogPowerupActive := fst lp,
                             logPowerupEndTime := fst (snd lp),
                             hasSeenLogPowerupPopup := fst (snd (snd lp))\<rparr>)))"

definition collectLooseLog :: "int \<Rightarrow> int \<Rightarrow> string \<Rightarrow> GameState \<Rightarrow> error + GameState" where
  "collectLooseLog now now2 ident state =
     (case find (\<lambda>l. loose_id l = ident) (looseLogs state) of
        None \<Rightarrow> Inr state
      | Some lg \<Rightarrow>
          if now - loose_createdAt lg < 500 then Inr state
          else (case collectCommon now now2 state of
                  Inl e \<Rightarrow> Inl e
                | Inr s \<Rightarrow> Inr (s\<lparr>looseLogs := filter (\<lambda>l. loose_id l \<noteq> ident) (looseLogs state)\<rparr>)))"

definition collectLog :: "int \<Rightarrow> int \<Rightarrow> string \<Rightarrow> GameState \<Rightarrow> error + GameState" where
  "collectLog now now2 ident state =
     (case find (\<lambda>l. log_id l = ident) (logs state) of
        None \<Rightarrow> Inr state
      | Some lg \<Rightarrow>
          if now - log_createdAt lg < 500 then Inr state
          else (case collectCommon now now2 state of
                  Inl e \<Rightarrow> Inl e
                | Inr s \<Rightarrow> Inr (s\<lparr>logs := filter (\<lambda>l. log_id l \<noteq> ident) (logs state)\<rparr>)))"

section \<open>Terrain helpers\<close>

definition MAP_SIZE :: real where
  "MAP_SIZE = 300"

definition getRiverX :: "real \<Rightarrow> real" where
  "getRiverX z = 20 * sin (z * 0.02) + 10 * sin (z * 0.05 + 2)"

definition getRiverWidth :: "real \<Rightarrow> real" where
  "getRiverWidth z = 8 + 3 * cos (z * 0.03) + 2 * sin (z * 0.1)"

definition calculateTerrainHeight :: "real \<Rightarrow> real \<Rightarrow> real" where
  "calculateTerrainHeight x z =
     (let riverCenter = getRiverX z;
          riverW = getRiverWidth z;
          distToRiver = \<bar>x - riverCenter\<bar>;
          h0 = 0 + 4 * sin (x * 0.08) * cos (z * 0.08) + 2 * sin (x * 0.04 + z * 0.08);
          distFromCenter = sqrt (x * x + z * z);
          mountainStart = MAP_SIZE / 2 - 40;
          h1 = (if distFromCenter > mountainStart
                then h0 + (distFromCenter - mountainStart) * 1.5 else h0);
          bankWidth = 8
      in if distToRiver < riverW then - 6
         else if distToRiver < riverW + bankWidth then
           (let t = (distToRiver - riverW) / bankWidth;
                smoothT = t * t * (3 - 2 * t)
            in - 6 + smoothT * (h1 + 6))
         else h1)"

section \<open>Session and simple actions\<close>

definition startGame :: "GameState \<Rightarrow> GameState" where
  "startGame state =
     state\<lparr>phase := PLAYING, woodCount := 0, score := 0, totalLogsCollected := 0,
           notification := None, damIntegrity := 0, logs := [], looseLogs := [],
           activeTreeId := None,
           trees := map (\<lambda>t. t\<lparr>tree_health := tree_maxHealth t, tree_isFelled := False\<rparr>) (trees state),
           placedStructures := [],
           combo := \<lparr>active = False, startTime = 0, logsCollected = 0, multiplier = 1,
                     lastLogTime = 0, logsSinceLastLevel = 0, levelStartTime = 0\<rparr>,
           isBuildMenuOpen := False, isPlacementMode := False, isPaused := False,
           lastPauseStartTime := 0, timeOfDay := 0, mobs := [], food := [],
           health := 100, maxHealth := 100\<rparr>"

definition endGame :: "GameState \<Rightarrow> GameState" where
  "endGame state = state\<lparr>phase := GAMEOVER, isPaused := True\<rparr>"

definition cycleCameraMode :: "GameState \<Rightarrow> GameState" where
  "cycleCameraMode state =
     state\<lparr>cameraMode :=
       (case cameraMode state of
          FOLLOW \<Rightarrow> TOP_DOWN | TOP_DOWN \<Rightarrow> BEHIND | BEHIND \<Rightarrow> CINEMATIC | CINEMATIC \<Rightarrow> FOLLOW)\<rparr>"

definition addWood :: "GameState \<Rightarrow> GameState" where
  "addWood state = state\<lparr>woodCount := woodCount state + 1\<rparr>"

definition endCombo :: "GameState \<Rightarrow> GameState" where
  "endCombo state = state\<lparr>combo := (combo state)\<lparr>active := False, multiplier := 1\<rparr>\<rparr>"

text \<open>
  The three resume paths shift the combo timestamps by the pause duration when the
  combo is active.
\<close>

definition shiftCombo :: "int \<Rightarrow> ComboState \<Rightarrow> ComboState" where
  "shiftCombo pauseDuration c =
     c\<lparr>startTime := startTime c + (if active c then pauseDuration else 0),
       levelStartTime := levelStartTime c + (if active c then pauseDuration else 0),
       lastLogTime := lastLogTime c + (if active c then pauseDuration else 0)\<rparr>"

definition dismissNotification :: "int \<Rightarrow> GameState \<Rightarrow> GameState" where
  "dismissNotification now state =
     (let pauseDuration = now - lastPauseStartTime state
      in state\<lparr>notification := None, isPaused := False,
               combo := shiftCombo pauseDuration (combo state)\<rparr>)"

definition expireLooseLog :: "string \<Rightarrow> GameState \<Rightarrow> GameState" where
  "expireLooseLog ident state =
     state\<lparr>looseLogs := filter (\<lambda>l. loose_id l \<noteq> ident) (looseLogs state)\<rparr>"

text \<open>\<open>placeLog\<close> reads the clock twice: for the id and for \<open>createdAt\<close>.\<close>

definition placeLog :: "int \<Rightarrow> int \<Rightarrow> vec3 \<Rightarrow> vec3 \<Rightarrow> GameState \<Rightarrow> GameState" where
  "placeLog now now2 position rotation state =
     (if woodCount state \<le> 0 then state
      else (let newLog = \<lparr>log_id = ''log-'' @ show_int now, log_position = position,
                           log_rotation = rotation, log_isLocked = False, log_createdAt = now2\<rparr>
            in state\<lparr>woodCount := woodCount state - 1, logs := logs state @ [newLog]\<rparr>))"

definition setActiveTree :: "string option \<Rightarrow> GameState \<Rightarrow> GameState" where
  "setActiveTree ident state =
     (if activeTreeId state = ident then state else state\<lparr>activeTreeId := ident\<rparr>)"

definition updateDamIntegrity :: "real \<Rightarrow> GameState \<Rightarrow> GameState" where
  "updateDamIntegrity val state = state\<lparr>damIntegrity := val\<rparr>"

text \<open>
  \<open>takeDamage\<close> calls \<open>state.endGame()\<close> inside its updater and then returns
  \<open>{ health: 0 }\<close>; the store merges that into the state \<open>endGame\<close> has just written.
\<close>

definition takeDamage :: "real \<Rightarrow> GameState \<Rightarrow> GameState" where
  "takeDamage amount state =
     (if phase state = GAMEOVER then state
      else (let newHealth = max 0 (health state - amount)
            in if newHealth = 0 then (endGame state)\<lparr>health := 0\<rparr>
               else state\<lparr>health := newHealth\<rparr>))"

definition heal :: "real \<Rightarrow> GameState \<Rightarrow> GameState" where
  "heal amount state = state\<lparr>health := min (maxHealth state) (health state + amount)\<rparr>"

definition collectFood :: "string \<Rightarrow> GameState \<Rightarrow> GameState" where
  "collectFood ident state =
     (case find (\<lambda>f. food_id f = ident) (food state) of
        None \<Rightarrow> state
      | Some fd \<Rightarrow>
          (let healAmount = (if food_type fd = apple then 20 else 10);
               maxOverheal = maxHealth state * 2;
               newHealth = min maxOverheal (health state + healAmount)
           in state\<lparr>food := filter (\<lambda>f. food_id f \<noteq> ident) (food state),
                    health := newHealth\<rparr>))"

section \<open>Build menu and placement\<close>

definition openBuildMenu :: "int \<Rightarrow> GameState \<Rightarrow> GameState" where
  "openBuildMenu now state =
     state\<lparr>isPlacementMode := False, isBuildMenuOpen := True, isPaused := True,
           lastPauseStartTime := now,
           combo := (combo state)\<lparr>active := False, multiplier := 1\<rparr>\<rparr>"

definition closeBuildMenu :: "int \<Rightarrow> GameState \<Rightarrow> GameState" where
  "closeBuildMenu now state =
     (let pauseDuration = now - lastPauseStartTime state
      in state\<lparr>isPlacementMode := False, isBuildMenuOpen := False,
               selectedBlueprintId := None, isPaused := False,
               combo := shiftCombo pauseDuration (combo state)\<rparr>)"

definition selectBlueprint :: "int \<Rightarrow> string \<Rightarrow> GameState \<Rightarrow> GameState" where
  "selectBlueprint now ident state =
     (let pauseDuration = now - lastPauseStartTime state
      in state\<lparr>selectedBlueprintId := Some ident, isPlacementMode := True,
               isBuildMenuOpen := False, isPaused := False, placementRotation := (0, 0, 0),
               combo := shiftCombo pauseDuration (combo state)\<rparr>)"

definition updatePlacementRotation :: "real \<Rightarrow> real \<Rightarrow> GameState \<Rightarrow> GameState" where
  "updatePlacementRotation x y state =
     (let speed = 0.05
      in case placementRotation state of (r0, r1, r2) \<Rightarrow>
           state\<lparr>placementRotation := (r0 + y * speed, r1 + x * speed, r2)\<rparr>)"

text \<open>\<open>!state.selectedBlueprintId\<close> holds for \<open>null\<close> and for the empty string.\<close>

definition falsy :: "string option \<Rightarrow> bool" where
  "falsy v = (case v of None \<Rightarrow> True | Some t \<Rightarrow> t = [])"

definition placeStructure :: "int \<Rightarrow> vec3 \<Rightarrow> GameState \<Rightarrow> GameState" where
  "placeStructure now position state =
     (if falsy (selectedBlueprintId state) then state
      else case find (\<lambda>b. Some (bp_id b) = selectedBlueprintId state) (blueprints state) of
        None \<Rightarrow> state
      | Some blueprint \<Rightarrow>
          if woodCount state < bp_cost blueprint then state
          else (let newStructure =
                      \<lparr>ps_id = ''struct-'' @ show_int now, ps_blueprintId = bp_id blueprint,
                       ps_position = position, ps_rotation = placementRotation state,
                       ps_health = of_int (bp_cost blueprint * 10),
                       ps_maxHealth = of_int (bp_cost blueprint * 10)\<rparr>
                in state\<lparr>woodCount := woodCount state - bp_cost blueprint,
                         placedStructures := placedStructures state @ [newStructure],
                         isPlacementMode := False, selectedBlueprintId := None\<rparr>))"

definition setDestroyTarget :: "string option \<Rightarrow> GameState \<Rightarrow> GameState" where
  "setDestroyTarget ident state = state\<lparr>destroyTargetId := ident\<rparr>"

definition startDestroying :: "GameState \<Rightarrow> GameState" where
  "startDestroying state = state\<lparr>isDestroying := True\<rparr>"

definition stopDestroying :: "GameState \<Rightarrow> GameState" where
  "stopDestroying state = state\<lparr>isDestroying := False\<rparr>"

definition checkPowerups :: "int \<Rightarrow> GameState \<Rightarrow> GameState" where
  "checkPowerups now state =
     (let s1 = (if isTreePowerupActive state \<and> now > treePowerupEndTime state
                then state\<lparr>isTreePowerupActive := False, treesChomped := []\<rparr> else state)
      in if isLogPowerupActive state \<and> now > logPowerupEndTime state
         then s1\<lparr>isLogPowerupActive := False\<rparr> else s1)"

text \<open>\<open>startChompingSession\<close> reads the clock three times.\<close>

definition startChompingSession :: "int \<Rightarrow> int \<Rightarrow> int \<Rightarrow> GameState \<Rightarrow> GameState" where
  "startChompingSession now now2 now3 state =
     (if active (combo state) then state
      else state\<lparr>combo := \<lparr>active = True, startTime = now, logsCollected = 0, multiplier = 1,
                           lastLogTime = now2, logsSinceLastLevel = 0, levelStartTime = now3\<rparr>\<rparr>)"

definition removeMob :: "string \<Rightarrow> GameState \<Rightarrow> GameState" where
  "removeMob ident state = state\<lparr>mobs := filter (\<lambda>m. mob_id m \<noteq> ident) (mobs state)\<rparr>"

definition checkCombo :: "GameState \<Rightarrow> GameState" where
  "checkCombo state = state"

section \<open>Double arithmetic\<close>

text \<open>
  The finite binary floating-point numbers with \<open>P\<close> bits of precision: \<open>m * 2^k / 2^E\<close>
  with \<open>|m| < 2^P\<close> and \<open>k \<le> K\<close>. The doubles (binary64) have 53 bits, the least positive
  one is \<open>2^-1074\<close> and the largest \<open>(2^53 - 1) * 2^971\<close>.
\<close>

definition floats :: "nat \<Rightarrow> nat \<Rightarrow> nat \<Rightarrow> real set" where
  "floats P E K = {x. \<exists>m k. \<bar>m\<bar> < 2 ^ P \<and> k \<le> K \<and> x = of_int (m * 2 ^ k) / 2 ^ E}"

definition doubles :: "real set" where
  "doubles = floats 53 1074 2045"

text \<open>
  An arithmetic operation on doubles returns its exact result rounded to a double. The
  rounding is an input \<open>fl\<close> of the model. All that is used of it holds in every rounding
  mode: when the exact result \<open>x\<close> lies between two doubles, the rounded result is a double
  between them.
\<close>

definition doubleRounding :: "(real \<Rightarrow> real) \<Rightarrow> bool" where
  "doubleRounding fl =
     (\<forall>a b x. a \<in> doubles \<and> b \<in> doubles \<and> a \<le> x \<and> x \<le> b
        \<longrightarrow> fl x \<in> doubles \<and> a \<le> fl x \<and> fl x \<le> b)"

text \<open>One such rounding: towards minus infinity.\<close>

definition roundDown :: "real \<Rightarrow> real" where
  "roundDown x = Max {v \<in> doubles. v \<le> x}"

text \<open>Another one: towards plus infinity.\<close>

definition roundUp :: "real \<Rightarrow> real" where
  "roundUp x = Min {v \<in> doubles. x \<le> v}"

text \<open>The largest double below 1.\<close>

definition belowOne :: real where
  "belowOne = 1 - 1 / 2 ^ 53"

section \<open>Actions that read the random source\<close>

text \<open>
  \<open>Math.random()\<close> and \<open>Date.now()\<close> are inputs: \<open>rnd k\<close> is the value of the
  \<open>k\<close>-th call of \<open>Math.random()\<close> inside the action (counting from 0, in evaluation
  order) and \<open>clk k\<close> the value of the \<open>k\<close>-th \<open>Date.now()\<close>.
\<close>

text \<open>The \<open>i\<close>-th loose log of a felled tree: five random reads and two clock reads.\<close>

definition treeLog ::
  "(nat \<Rightarrow> real) \<Rightarrow> (nat \<Rightarrow> int) \<Rightarrow> string \<Rightarrow> TreeData \<Rightarrow> nat \<Rightarrow> nat \<Rightarrow> LooseLogData" where
  "treeLog rnd clk ident tree logCount i =
     (let angle = (pi * 2 * real i) / real logCount + rnd (5 * i);
          distance = 2.0 + rnd (5 * i + 1) * 2.5;
          lx = fst (tree_position tree) + cos angle * distance;
          lz = snd (snd (tree_position tree)) + sin angle * distance;
          lh = calculateTerrainHeight lx lz
      in \<lparr>loose_id = ''loose-'' @ ident @ ''-'' @ show_int (clk (2 * i)) @ ''-'' @ show_nat i,
          loose_position = (lx, lh + 3.0, lz),
          loose_rotation = (rnd (5 * i + 2) * pi, rnd (5 * i + 3) * pi, rnd (5 * i + 4) * pi),
          loose_createdAt = clk (2 * i + 1) + int i * 100\<rparr>)"

text \<open>The food a felled tree drops; \<open>r\<close> and \<open>k\<close> count the reads made before.\<close>

definition treeFood ::
  "(nat \<Rightarrow> real) \<Rightarrow> (nat \<Rightarrow> int) \<Rightarrow> string \<Rightarrow> TreeData \<Rightarrow> nat \<Rightarrow> nat \<Rightarrow> FoodData" where
  "treeFood rnd clk ident tree r k =
     (let angle = rnd r * pi * 2;
          dist = 1.5 + rnd (r + 1);
          fx = fst (tree_position tree) + cos angle * dist;
          fz = snd (snd (tree_position tree)) + sin angle * dist;
          fh = calculateTerrainHeight fx fz
      in \<lparr>food_id = ''food-'' @ ident @ ''-'' @ show_int (clk k),
          food_position = (fx, fh + 2.0, fz),
          food_rotation = (0, rnd (r + 2) * pi * 2, 0),
          food_createdAt = clk (k + 1),
          food_type = (if rnd (r + 3) > 0.5 then apple else berry)\<rparr>)"

definition megaChompNotification :: Notification where
  "megaChompNotification =
     \<lparr>n_id = None, n_title = ''MEGA CHOMP ACTIVATED!'',
      n_message = ''You chomped 3 trees in 30 seconds! For the next 22.5 seconds, you can chomp multiple trees at once! Get to work!'',
      n_type = info, n_blueprintId = None\<rparr>"

definition damageTree ::
  "(nat \<Rightarrow> real) \<Rightarrow> (nat \<Rightarrow> int) \<Rightarrow> string \<Rightarrow> real \<Rightarrow> GameState \<Rightarrow> GameState" where
  "damageTree rnd clk ident amount state =
     (case find (\<lambda>t. tree_id t = ident) (trees state) of
        None \<Rightarrow> state
      | Some tree \<Rightarrow>
          if tree_isFelled tree then state
          else
            (let newHealth = max 0 (tree_health tree - amount);
                 isFelled = (newHealth = 0);
                 newTrees = map (\<lambda>t. if tree_id t = ident
                                      then t\<lparr>tree_health := newHealth, tree_isFelled := isFelled\<rparr>
                                      else t) (trees state)
             in if isFelled then
                  (let logCount = (case tree_size tree of large \<Rightarrow> 3 | medium \<Rightarrow> 2 | small \<Rightarrow> 1);
                       newLooseLogs = map (treeLog rnd clk ident tree logCount) [0..<logCount];
                       dropFood = (rnd (5 * logCount) < 0.3);
                       newFood = (if dropFood
                                  then [treeFood rnd clk ident tree (5 * logCount + 1) (2 * logCount)]
                                  else []);
                       now = clk (2 * logCount + (if dropFood then 2 else 0));
                       newTreesChomped = filter (\<lambda>t. now - t \<le> 30000) (treesChomped state) @ [now];
                       activate = (length newTreesChomped \<ge> 3 \<and> \<not> isTreePowerupActive state);
                       popup = (activate \<and> \<not> hasSeenTreePowerupPopup state)
                   in state\<lparr>activeTreeId := None,
                            trees := newTrees,
                            looseLogs := looseLogs state @ newLooseLogs,
                            food := food state @ newFood,
                            treesChomped := newTreesChomped,
                            isTreePowerupActive := (if activate then True else isTreePowerupActive state),
                            treePowerupEndTime :=
                              (if activate then now + 22500 else treePowerupEndTime state),
                            hasSeenTreePowerupPopup :=
                              (if popup then True else hasSeenTreePowerupPopup state),
                            notification :=
                              (if popup then Some megaChompNotification else notification state),
                            isPaused := (if popup then True else isPaused state),
                            lastPauseStartTime := (if popup then now else lastPauseStartTime state),
                            lastChompTime := now\<rparr>)
                else state\<lparr>activeTreeId := Some ident, trees := newTrees,
                           looseLogs := looseLogs state @ []\<rparr>))"

text \<open>The \<open>i\<close>-th loose log of a destroyed structure: six random reads and two clock reads.\<close>

definition structLog ::
  "(nat \<Rightarrow> real) \<Rightarrow> (nat \<Rightarrow> int) \<Rightarrow> PlacedStructure \<Rightarrow> nat \<Rightarrow> LooseLogData" where
  "structLog rnd clk structure i =
     (let angle = rnd (6 * i) * pi * 2;
          dist = rnd (6 * i + 1) * 4;
          lx = fst (ps_position structure) + cos angle * dist;
          lz = snd (snd (ps_position structure)) + sin angle * dist;
          lh = calculateTerrainHeight lx lz
      in \<lparr>loose_id = ''loose-struct-'' @ ps_id structure @ ''-'' @ show_int (clk (2 * i))
                       @ ''-'' @ show_nat i,
          loose_position = (lx, lh + 5 + rnd (6 * i + 2) * 5, lz),
          loose_rotation = (rnd (6 * i + 3) * pi, rnd (6 * i + 4) * pi, rnd (6 * i + 5) * pi),
          loose_createdAt = clk (2 * i + 1) + int i * 50\<rparr>)"

definition tickDestruction ::
  "(nat \<Rightarrow> real) \<Rightarrow> (nat \<Rightarrow> int) \<Rightarrow> real \<Rightarrow> GameState \<Rightarrow> GameState" where
  "tickDestruction rnd clk delta state =
     (if \<not> isDestroying state \<or> falsy (destroyTargetId state) then state
      else case find (\<lambda>s. Some (ps_id s) = destroyTargetId state) (placedStructures state) of
        None \<Rightarrow> state\<lparr>isDestroying := False, destroyTargetId := None\<rparr>
      | Some structure \<Rightarrow>
          (let damageRate = ps_maxHealth structure / (2.0 + (ps_maxHealth structure / 1000));
               newHealth = max 0 (ps_health structure - damageRate * delta)
           in if newHealth \<le> 0 then
                (let blueprint = find (\<lambda>b. bp_id b = ps_blueprintId structure) (blueprints state);
                     cost = (case blueprint of Some b \<Rightarrow> bp_cost b | None \<Rightarrow> 10);
                     logsToSpawn = \<lfloor>of_int cost * (0.8 :: real)\<rfloor>;
                     newLooseLogs = map (structLog rnd clk structure) [0..<nat logsToSpawn]
                 in state\<lparr>placedStructures :=
                             filter (\<lambda>s. Some (ps_id s) \<noteq> destroyTargetId state) (placedStructures state),
                          looseLogs := looseLogs state @ newLooseLogs,
                          isDestroying := False, destroyTargetId := None\<rparr>)
              else state\<lparr>placedStructures :=
                           map (\<lambda>s. if Some (ps_id s) = destroyTargetId state
                                     then s\<lparr>ps_health := newHealth\<rparr> else s)
                               (placedStructures state)\<rparr>))"

text \<open>The mob of \<open>updateTime\<close> and \<open>spawnMob\<close>; \<open>r\<close> counts the random reads made before.\<close>

definition newMob ::
  "(nat \<Rightarrow> real) \<Rightarrow> (nat \<Rightarrow> int) \<Rightarrow> nat \<Rightarrow> real \<Rightarrow> real \<Rightarrow> vec3 \<Rightarrow> MobData" where
  "newMob rnd clk r base spread playerPos =
     (let angle = rnd r * pi * 2;
          dist = base + rnd (r + 1) * spread
      in \<lparr>mob_id = ''mob-'' @ show_int (clk 0),
          mob_position = (fst playerPos + cos angle * dist, 0, snd (snd playerPos) + sin angle * dist),
          mob_velocity = (0, 0, 0),
          mob_type = (if rnd (r + 2) > 0.5 then wolf else bear),
          mob_createdAt = clk 1\<rparr>)"

text \<open>
  \<open>updateTime\<close> in double arithmetic: \<open>fl\<close> rounds the result of each division, addition,
  subtraction and multiplication, and the literal \<open>0.2\<close> denotes the double \<open>fl 0.2\<close>.
  The coordinates of a spawned mob (\<open>newMob\<close>) are kept exact.
\<close>

definition updateTime ::
  "(real \<Rightarrow> real) \<Rightarrow> (nat \<Rightarrow> real) \<Rightarrow> (nat \<Rightarrow> int) \<Rightarrow> real \<Rightarrow> vec3 \<Rightarrow> GameState
     \<Rightarrow> GameState" where
  "updateTime fl rnd clk delta playerPos state =
     (if isPaused state then state
      else
        (let dayProgress = fl (delta / dayDuration state);
             t0 = fl (timeOfDay state + dayProgress);
             newTime = (if t0 \<ge> 1 then fl (t0 - 1) else t0);
             isNight = (newTime > 0.75 \<or> newTime < 0.25);
             newMobs =
               (if isNight then
                  (if length (mobs state) < 8 \<and> rnd 0 < 0.01
                   then mobs state @ [newMob rnd clk 1 30 20 playerPos] else mobs state)
                else
                  (if length (mobs state) > 0 \<and> rnd 0 < 0.02
                   then butlast (mobs state) else mobs state));
             newHealth =
               (if health state > maxHealth state
                then max (maxHealth state) (fl (health state - fl (fl 0.2 * delta)))
                else health state)
         in state\<lparr>timeOfDay := newTime, mobs := newMobs, health := newHealth\<rparr>))"

definition spawnMob ::
  "(nat \<Rightarrow> real) \<Rightarrow> (nat \<Rightarrow> int) \<Rightarrow> vec3 \<Rightarrow> GameState \<Rightarrow> GameState" where
  "spawnMob rnd clk playerPos state =
     state\<lparr>mobs := mobs state @ [newMob rnd clk 0 25 15 playerPos]\<rparr>"

section \<open>The store: catalog, initial state and action dispatch\<close>

definition baseCosts :: "int list" where
  "baseCosts = [7, 15, 30, 60, 120, 240, 480, 960, 1920, 3840]"

definition names :: "string list" where
  "names = [''Small Pile'', ''Log Line'', ''Corner Wall'', ''Box Frame'', ''River Gate'',
            ''Dam Segment'', ''Fortress Wall'', ''Tower Base'', ''Mega Dam'', ''Woodchuck Palace'']"

text \<open>
  \<open>generateBlueprints\<close>; the randomly scattered log offsets of blueprint \<open>i\<close> are the
  input \<open>lg i\<close>.
\<close>

definition generateBlueprints :: "(nat \<Rightarrow> (vec3 \<times> vec3) list) \<Rightarrow> Blueprint list" where
  "generateBlueprints lg =
     map (\<lambda>i. \<lparr>bp_id = ''bp-'' @ show_nat i, bp_name = names ! i, bp_cost = baseCosts ! i,
                bp_logs = lg i, bp_unlocked = False,
                bp_unlockScore = Some (if i = 0 then 0 else thresholds ! i)\<rparr>) [0..<10]"

text \<open>
  The state the store is created with; the random tree and boulder populations and the
  catalog are inputs.
\<close>

definition initialState :: "TreeData list \<Rightarrow> BoulderData list \<Rightarrow> Blueprint list \<Rightarrow> GameState" where
  "initialState ts bs bps =
     \<lparr>phase = START, cameraMode = BEHIND, woodCount = 0, score = 0, totalLogsCollected = 0,
      notification = None, damIntegrity = 0, trees = ts, logs = [], looseLogs = [],
      boulders = bs, woodchuckPosition = (0, 5, 0), activeTreeId = None,
      blueprints = bps, placedStructures = [], isPlacementMode = False,
      isBuildMenuOpen = False, selectedBlueprintId = None, placementRotation = (0, 0, 0),
      destroyTargetId = None, isDestroying = False, isPaused = False, lastPauseStartTime = 0,
      combo = \<lparr>active = False, startTime = 0, logsCollected = 0, multiplier = 1,
                lastLogTime = 0, logsSinceLastLevel = 0, levelStartTime = 0\<rparr>,
      lastChompTime = 0, treesChomped = [], isTreePowerupActive = False,
      treePowerupEndTime = 0, hasSeenTreePowerupPopup = False, isLogPowerupActive = False,
      logPowerupEndTime = 0, hasSeenLogPowerupPopup = False, timeOfDay = 0, dayDuration = 300,
      mobs = [], food = [], health = 100, maxHealth = 100\<rparr>"

text \<open>
  The actions of the store with their arguments, their clock and random reads and, for
  \<open>updateTime\<close>, the rounding of its arithmetic.
\<close>

datatype Action =
    StartGame
  | EndGame
  | CycleCameraMode
  | AddWood
  | EndCombo
  | DismissNotification int
  | CollectLooseLog int int string
  | CollectLog int int string
  | ExpireLooseLog string
  | PlaceLog int int vec3 vec3
  | DamageTree "nat \<Rightarrow> real" "nat \<Rightarrow> int" string real
  | SetActiveTree "string option"
  | UpdateDamIntegrity real
  | TakeDamage real
  | Heal real
  | CollectFood string
  | OpenBuildMenu int
  | CloseBuildMenu int
  | SelectBlueprint int string
  | UpdatePlacementRotation real real
  | PlaceStructure int vec3
  | SetDestroyTarget "string option"
  | StartDestroying
  | StopDestroying
  | TickDestruction "nat \<Rightarrow> real" "nat \<Rightarrow> int" real
  | CheckPowerups int
  | StartChompingSession int int int
  | UpdateTime "real \<Rightarrow> real" "nat \<Rightarrow> real" "nat \<Rightarrow> int" real vec3
  | SpawnMob "nat \<Rightarrow> real" "nat \<Rightarrow> int" vec3
  | RemoveMob string
  | CheckCombo

text \<open>An updater that throws leaves the store as it was.\<close>

definition orKeep :: "GameState \<Rightarrow> error + GameState \<Rightarrow> GameState" where
  "orKeep state r = (case r of Inl e \<Rightarrow> state | Inr s \<Rightarrow> s)"

fun perform :: "Action \<Rightarrow> GameState \<Rightarrow> GameState" where
  "perform StartGame s = startGame s"
| "perform EndGame s = endGame s"
| "perform CycleCameraMode s = cycleCameraMode s"
| "perform AddWood s = addWood s"
| "perform EndCombo s = endCombo s"
| "perform (DismissNotification now) s = dismissNotification now s"
| "perform (CollectLooseLog now now2 ident) s = orKeep s (collectLooseLog now now2 ident s)"
| "perform (CollectLog now now2 ident) s = orKeep s (collectLog now now2 ident s)"
| "perform (ExpireLooseLog ident) s = expireLooseLog ident s"
| "perform (PlaceLog now now2 position rotation) s = placeLog now now2 position rotation s"
| "perform (DamageTree rnd clk ident amount) s = damageTree rnd clk ident amount s"
| "perform (SetActiveTree ident) s = setActiveTree ident s"
| "perform (UpdateDamIntegrity val) s = updateDamIntegrity val s"
| "perform (TakeDamage amount) s = takeDamage amount s"
| "perform (Heal amount) s = heal amount s"
| "perform (CollectFood ident) s = collectFood ident s"
| "perform (OpenBuildMenu now) s = openBuildMenu now s"
| "perform (CloseBuildMenu now) s = closeBuildMenu now s"
| "perform (SelectBlueprint now ident) s = selectBlueprint now ident s"
| "perform (UpdatePlacementRotation x y) s = updatePlacementRotation x y s"
| "perform (PlaceStructure now position) s = placeStructure now position s"
| "perform (SetDestroyTarget ident) s = setDestroyTarget ident s"
| "perform StartDestroying s = startDestroying s"
| "perform StopDestroying s = stopDestroying s"
| "perform (TickDestruction rnd clk delta) s = tickDestruction rnd clk delta s"
| "perform (CheckPowerups now) s = checkPowerups now s"
| "perform (StartChompingSession now now2 now3) s = startChompingSession now now2 now3 s"
| "perform (UpdateTime fl rnd clk delta playerPos) s = updateTime fl rnd clk delta playerPos s"
| "perform (SpawnMob rnd clk playerPos) s = spawnMob rnd clk playerPos s"
| "perform (RemoveMob ident) s = removeMob ident s"
| "perform CheckCombo s = checkCombo s"

text \<open>A run of the store: the actions are performed one after the other.\<close>

fun performAll :: "Action list \<Rightarrow> GameState \<Rightarrow> GameState" where
  "performAll [] s = s"
| "performAll (a # as) s = performAll as (perform a s)"

text \<open>The actions that end a combo session: \<open>endCombo\<close>, \<open>openBuildMenu\<close> and the reset.\<close>

fun endsCombo :: "Action \<Rightarrow> bool" where
  "endsCombo EndCombo = True"
| "endsCombo (OpenBuildMenu now) = True"
| "endsCombo StartGame = True"
| "endsCombo a = False"

fun isCollection :: "Action \<Rightarrow> bool" where
  "isCollection (CollectLooseLog now now2 ident) = True"
| "isCollection (CollectLog now now2 ident) = True"
| "isCollection a = False"

text \<open>The actions whose code reads or writes \<open>phase\<close>.\<close>

fun touchesPhase :: "Action \<Rightarrow> bool" where
  "touchesPhase StartGame = True"
| "touchesPhase EndGame = True"
| "touchesPhase (TakeDamage amount) = True"
| "touchesPhase a = False"

section \<open>States used in the examples\<close>

definition plainCatalog :: "Blueprint list" where
  "plainCatalog = generateBlueprints (\<lambda>i. [])"

definition looseA :: LooseLogData where
  "looseA = \<lparr>loose_id = ''a'', loose_position = (0, 0, 0), loose_rotation = (0, 0, 0),
             loose_createdAt = 1000\<rparr>"

definition looseB :: LooseLogData where
  "looseB = \<lparr>loose_id = ''b'', loose_position = (1, 0, 0), loose_rotation = (0, 0, 0),
             loose_createdAt = 1000\<rparr>"

definition logA :: LogData where
  "logA = \<lparr>log_id = ''a'', log_position = (0, 0, 0), log_rotation = (0, 0, 0),
           log_isLocked = False, log_createdAt = 1000\<rparr>"

text \<open>The initial state of a store without trees and boulders, with collectible entities added.\<close>

definition demoState :: GameState where
  "demoState = (initialState [] [] plainCatalog)\<lparr>looseLogs := [looseA, looseB], logs := [logA]\<rparr>"

text \<open>A session paused by a notification at time 5000, with a combo started at time 100.\<close>

definition pausedDemo :: GameState where
  "pausedDemo =
     demoState\<lparr>phase := PLAYING, isPaused := True, lastPauseStartTime := 5000,
               notification := Some magnetNotification,
               combo := \<lparr>active = True, startTime = 100, logsCollected = 1, multiplier = 1,
                         lastLogTime = 4000, logsSinceLastLevel = 1, levelStartTime = 100\<rparr>\<rparr>"

text \<open>Placement mode with the first blueprint (cost 7) selected and 5 wood.\<close>

definition placingDemo :: GameState where
  "placingDemo =
     demoState\<lparr>phase := PLAYING, selectedBlueprintId := Some ''bp-0'', isPlacementMode := True,
               woodCount := 5\<rparr>"

text \<open>
  A state in which a single collection cascades: with score 250 and blueprints 1 and 2
  locked, the bonus of blueprint 1 lifts the score to 350, past the threshold 300 of
  blueprint 2.
\<close>

definition cascadeDemo :: GameState where
  "cascadeDemo = demoState\<lparr>phase := PLAYING, score := 250\<rparr>"

definition cascadeAfter :: GameState where
  "cascadeAfter = orKeep cascadeDemo (collectLooseLog 2000 2000 ''a'' cascadeDemo)"

text \<open>Two collections, 1000 ms apart, from the initial combo.\<close>

definition demoAfterOne :: GameState where
  "demoAfterOne = orKeep demoState (collectLooseLog 2000 2000 ''a'' demoState)"

definition demoAfterTwo :: GameState where
  "demoAfterTwo = orKeep demoAfterOne (collectLog 3000 3000 ''a'' demoAfterOne)"

text \<open>
  A session: two logs are placed after the start, then both are collected, 1000 ms
  apart.
\<close>

definition sessionPre :: "Action list" where
  "sessionPre = [AddWood, PlaceLog 1000 1000 (0, 0, 0) (0, 0, 0),
                 AddWood, PlaceLog 1001 1001 (1, 0, 0) (0, 0, 0)]"

definition sessionPost :: "Action list" where
  "sessionPost = [CollectLog 2000 2000 ''log-1000'', CollectLog 3000 3000 ''log-1001'']"

definition sessionPlaced :: GameState where
  "sessionPlaced =
     placeLog 1001 1001 (1, 0, 0) (0, 0, 0)
       (addWood (placeLog 1000 1000 (0, 0, 0) (0, 0, 0) (addWood (startGame demoState))))"

definition sessionOne :: GameState where
  "sessionOne = orKeep sessionPlaced (collectLog 2000 2000 ''log-1000'' sessionPlaced)"

definition sessionTwo :: GameState where
  "sessionTwo = orKeep sessionOne (collectLog 3000 3000 ''log-1001'' sessionOne)"

text \<open>
  The combo states a session can be in: an inactive combo has multiplier 1. The reset
  establishes this and every action keeps it.
\<close>

definition comboOk :: "GameState \<Rightarrow> bool" where
  "comboOk s = (active (combo s) \<or> multiplier (combo s) = 1)"

text \<open>A sequence of \<open>updateTime\<close> calls, each with its reads, its delta and the player position.\<close>

fun updateTimes ::
  "(real \<Rightarrow> real) \<Rightarrow> ((nat \<Rightarrow> real) \<times> (nat \<Rightarrow> int) \<times> real \<times> vec3) list \<Rightarrow> GameState
     \<Rightarrow> GameState" where
  "updateTimes fl [] s = s"
| "updateTimes fl ((rnd, clk, delta, playerPos) # cs) s =
     updateTimes fl cs (updateTime fl rnd clk delta playerPos s)"

text \<open>Three ticks of 150 s on a day of 300 s; the random source never spawns or removes a mob.\<close>

definition dayCalls :: "((nat \<Rightarrow> real) \<times> (nat \<Rightarrow> int) \<times> real \<times> vec3) list" where
  "dayCalls = [(\<lambda>k. 1, \<lambda>k. 0, 150, (0, 0, 0)), (\<lambda>k. 1, \<lambda>k. 0, 150, (0, 0, 0)),
               (\<lambda>k. 1, \<lambda>k. 0, 150, (0, 0, 0))]"

text \<open>A running session at full health with an apple on the ground.\<close>

definition fedDemo :: GameState where
  "fedDemo =
     (startGame demoState)\<lparr>food := [\<lparr>food_id = ''food-1'', food_position = (0, 0, 0),
                                     food_rotation = (0, 0, 0), food_createdAt = 1000,
                                     food_type = apple\<rparr>]\<rparr>"

section \<open>Facts about the example states\<close>

lemma demo_find_looseA: "find (\<lambda>l. loose_id l = ''a'') (looseLogs demoState) = Some looseA"
  by (simp add: demoState_def looseA_def looseB_def initialState_def)

lemma demo_find_logA: "find (\<lambda>l. log_id l = ''a'') (logs demoState) = Some logA"
  by (simp add: demoState_def logA_def initialState_def)

lemma demo_find_none: "find (\<lambda>l. loose_id l = ''c'') (looseLogs demoState) = None"
  by (simp add: demoState_def looseA_def looseB_def initialState_def)

lemma placing_find:
  "find (\<lambda>b. Some (bp_id b) = selectedBlueprintId placingDemo) (blueprints placingDemo)
     = Some (plainCatalog ! 0)"
  by code_simp

lemma placing_cost: "bp_cost (plainCatalog ! 0) = 7"
  by code_simp

lemma placing_wood: "woodCount placingDemo = 5"
  by (simp add: placingDemo_def)

lemma placing_find_rich:
  "find (\<lambda>b. Some (bp_id b) = selectedBlueprintId (placingDemo\<lparr>woodCount := 20\<rparr>))
        (blueprints (placingDemo\<lparr>woodCount := 20\<rparr>)) = Some (plainCatalog ! 0)"
  using placing_find by (simp add: placingDemo_def)

lemma placing_truthy: "\<not> falsy (selectedBlueprintId (placingDemo\<lparr>woodCount := 20\<rparr>))"
  by (simp add: placingDemo_def falsy_def)

section \<open>The phase is not a gate\<close>

lemma logPowerup_phase: "logPowerup now c (s\<lparr>phase := p\<rparr>) = logPowerup now c s"
  by (simp add: logPowerup_def)

lemma collectCommon_phase:
  "collectCommon now now2 (s\<lparr>phase := p\<rparr>)
     = map_sum id (\<lambda>t. t\<lparr>phase := p\<rparr>) (collectCommon now now2 s)"
  by (simp add: collectCommon_def logPowerup_phase Let_def split: sum.splits prod.splits)

lemma collectLooseLog_phase:
  "collectLooseLog now now2 ident (s\<lparr>phase := p\<rparr>)
     = map_sum id (\<lambda>t. t\<lparr>phase := p\<rparr>) (collectLooseLog now now2 ident s)"
  by (simp add: collectLooseLog_def collectCommon_phase split: option.splits sum.splits)

lemma collectLog_phase:
  "collectLog now now2 ident (s\<lparr>phase := p\<rparr>)
     = map_sum id (\<lambda>t. t\<lparr>phase := p\<rparr>) (collectLog now now2 ident s)"
  by (simp add: collectLog_def collectCommon_phase split: option.splits sum.splits)

lemma damageTree_phase:
  "damageTree rnd clk ident amount (s\<lparr>phase := p\<rparr>) = (damageTree rnd clk ident amount s)\<lparr>phase := p\<rparr>"
  by (simp add: damageTree_def Let_def split: option.splits)

lemma placeStructure_phase:
  "placeStructure now position (s\<lparr>phase := p\<rparr>) = (placeStructure now position s)\<lparr>phase := p\<rparr>"
  by (simp add: placeStructure_def Let_def split: option.splits)

lemma tickDestruction_phase:
  "tickDestruction rnd clk delta (s\<lparr>phase := p\<rparr>) = (tickDestruction rnd clk delta s)\<lparr>phase := p\<rparr>"
  by (simp add: tickDestruction_def Let_def split: option.splits)

lemma updateTime_phase:
  "updateTime fl rnd clk delta pos (s\<lparr>phase := p\<rparr>)
     = (updateTime fl rnd clk delta pos s)\<lparr>phase := p\<rparr>"
  by (simp add: updateTime_def Let_def)

lemma perform_phase:
  "\<not> touchesPhase a \<Longrightarrow> perform a (s\<lparr>phase := p\<rparr>) = (perform a s)\<lparr>phase := p\<rparr>"
proof (cases a)
  case (CollectLooseLog now now2 ident)
  then show ?thesis
    by (simp add: collectLooseLog_phase orKeep_def split: sum.splits)
next
  case (CollectLog now now2 ident)
  then show ?thesis
    by (simp add: collectLog_phase orKeep_def split: sum.splits)
qed (simp_all add: damageTree_phase placeStructure_phase tickDestruction_phase updateTime_phase
      cycleCameraMode_def addWood_def endCombo_def dismissNotification_def expireLooseLog_def
      placeLog_def setActiveTree_def updateDamIntegrity_def heal_def collectFood_def
      openBuildMenu_def closeBuildMenu_def selectBlueprint_def updatePlacementRotation_def
      setDestroyTarget_def startDestroying_def stopDestroying_def checkPowerups_def
      startChompingSession_def spawnMob_def removeMob_def checkCombo_def Let_def
      split: option.splits prod.splits)

text \<open>
  The claim C1 as stated fails: in phase \<open>START\<close> a call of \<open>collectLooseLog\<close> on a
  collectible loose log awards wood and removes the log, and in phase \<open>GAMEOVER\<close>
  \<open>placeStructure\<close> spends wood.
\<close>

theorem C1_counterexample:
  "phase demoState = START
   \<and> collectLooseLog 2000 2000 ''a'' demoState = Inr demoAfterOne
   \<and> demoAfterOne \<noteq> demoState
   \<and> woodCount demoState = 0 \<and> woodCount demoAfterOne = 1
   \<and> looseLogs demoState = [looseA, looseB] \<and> looseLogs demoAfterOne = [looseB]
   \<and> phase (placingDemo\<lparr>phase := GAMEOVER, woodCount := 20\<rparr>) = GAMEOVER
   \<and> woodCount (placeStructure 1 (0, 0, 0) (placingDemo\<lparr>phase := GAMEOVER, woodCount := 20\<rparr>)) = 13"
  by code_simp


text \<open>
  C1 (amended). No action except \<open>startGame\<close>, \<open>endGame\<close> and \<open>takeDamage\<close> reads or writes
  \<open>phase\<close>: performed in a state whose phase is replaced by any \<open>p\<close>, it gives the same
  result with phase \<open>p\<close>, and it leaves the phase as it is. This holds in particular for
  \<open>collectLooseLog\<close>, \<open>collectLog\<close>, \<open>damageTree\<close>, \<open>placeStructure\<close> and \<open>tickDestruction\<close>, which
  therefore act in \<open>START\<close> and \<open>GAMEOVER\<close> as they do in \<open>PLAYING\<close>. \<open>startGame\<close> and \<open>endGame\<close>
  overwrite the phase without reading it. \<open>takeDamage\<close> is the action that tests the
  phase: it returns the state unchanged in \<open>GAMEOVER\<close>.
\<close>

theorem C1_actions_ignore_phase:
  "(\<not> touchesPhase a \<longrightarrow> perform a (s\<lparr>phase := p\<rparr>) = (perform a s)\<lparr>phase := p\<rparr>)
 \<and> collectLooseLog now now2 ident (s\<lparr>phase := p\<rparr>)
      = map_sum id (\<lambda>t. t\<lparr>phase := p\<rparr>) (collectLooseLog now now2 ident s)
 \<and> collectLog now now2 ident (s\<lparr>phase := p\<rparr>)
      = map_sum id (\<lambda>t. t\<lparr>phase := p\<rparr>) (collectLog now now2 ident s)
 \<and> damageTree rnd clk ident amount (s\<lparr>phase := p\<rparr>)
      = (damageTree rnd clk ident amount s)\<lparr>phase := p\<rparr>
 \<and> placeStructure now position (s\<lparr>phase := p\<rparr>) = (placeStructure now position s)\<lparr>phase := p\<rparr>
 \<and> tickDestruction rnd clk delta (s\<lparr>phase := p\<rparr>)
      = (tickDestruction rnd clk delta s)\<lparr>phase := p\<rparr>
 \<and> (phase s = GAMEOVER \<longrightarrow> takeDamage amount s = s)
 \<and> (\<not> touchesPhase a \<longrightarrow> phase (perform a s) = phase s)
 \<and> startGame (s\<lparr>phase := p\<rparr>) = startGame s
 \<and> endGame (s\<lparr>phase := p\<rparr>) = endGame s"
proof -
  have keep: "phase (perform a s) = phase s" if "\<not> touchesPhase a"
  proof -
    from perform_phase [OF that, where s=s and p="phase s"]
    have "perform a s = (perform a s)\<lparr>phase := phase s\<rparr>" by simp
    then have "phase (perform a s) = phase ((perform a s)\<lparr>phase := phase s\<rparr>)"
      by (rule arg_cong)
    then show ?thesis by simp
  qed
  have resets: "startGame (s\<lparr>phase := p\<rparr>) = startGame s" "endGame (s\<lparr>phase := p\<rparr>) = endGame s"
    by (simp_all add: startGame_def endGame_def)
  from keep resets perform_phase [where a=a and s=s and p=p] show ?thesis
    by (simp add: collectLooseLog_phase collectLog_phase damageTree_phase placeStructure_phase
          tickDestruction_phase takeDamage_def)
qed

theorem C1_witness:
  "\<not> touchesPhase (CollectLooseLog 2000 2000 ''a'')
   \<and> perform (CollectLooseLog 2000 2000 ''a'') (demoState\<lparr>phase := GAMEOVER\<rparr>)
       = (perform (CollectLooseLog 2000 2000 ''a'') demoState)\<lparr>phase := GAMEOVER\<rparr>
   \<and> phase (demoState\<lparr>phase := GAMEOVER\<rparr>) = GAMEOVER
   \<and> takeDamage 30 (demoState\<lparr>phase := GAMEOVER\<rparr>) = demoState\<lparr>phase := GAMEOVER\<rparr>"
proof -
  have n: "\<not> touchesPhase (CollectLooseLog 2000 2000 ''a'')" by simp
  from C1_actions_ignore_phase [where a="CollectLooseLog 2000 2000 ''a''" and s=demoState
          and p=GAMEOVER] n
  have 1: "perform (CollectLooseLog 2000 2000 ''a'') (demoState\<lparr>phase := GAMEOVER\<rparr>)
       = (perform (CollectLooseLog 2000 2000 ''a'') demoState)\<lparr>phase := GAMEOVER\<rparr>"
    by blast
  have g: "phase (demoState\<lparr>phase := GAMEOVER\<rparr>) = GAMEOVER" by simp
  from C1_actions_ignore_phase [where s="demoState\<lparr>phase := GAMEOVER\<rparr>" and amount=30] g
  have 2: "takeDamage 30 (demoState\<lparr>phase := GAMEOVER\<rparr>) = demoState\<lparr>phase := GAMEOVER\<rparr>"
    by blast
  from n 1 g 2 show ?thesis by blast
qed

section \<open>The blueprint unlock sweep\<close>

lemma thresholds_sorted: "sorted thresholds"
  by (simp add: thresholds_def)

lemma thresholds_length: "length thresholds = 10"
  by (simp add: thresholds_def)

lemma thresholds_mono: "i \<le> j \<Longrightarrow> j < 10 \<Longrightarrow> thresholds ! i \<le> thresholds ! j"
  using sorted_nth_mono [OF thresholds_sorted, of i j] by (simp add: thresholds_length)

lemma unlockLoop_append:
  "unlockLoop (xs @ ys) v = (case unlockLoop xs v of Inl e \<Rightarrow> Inl e | Inr w \<Rightarrow> unlockLoop ys w)"
  by (induction xs v rule: unlockLoop.induct) (simp_all add: Let_def)

lemma unlockLoop_grows:
  "unlockLoop js (bps, sc, n, p) = Inr (bps', sc', n', p') \<Longrightarrow>
     length bps' = length bps \<and> sc \<le> sc'
     \<and> (\<forall>k. k < length bps \<and> bp_unlocked (bps ! k) \<longrightarrow> bp_unlocked (bps' ! k))"
proof (induction js arbitrary: bps sc n p)
  case Nil
  then show ?case by simp
next
  case (Cons i js)
  show ?case
  proof (cases "i < length bps")
    case False
    with Cons.prems show ?thesis by simp
  next
    case True
    show ?thesis
    proof (cases "\<not> bp_unlocked (bps ! i) \<and> sc \<ge> thresholds ! i")
      case True
      with \<open>i < length bps\<close> Cons.prems
      have "unlockLoop js (bps[i := (bps ! i)\<lparr>bp_unlocked := True\<rparr>], sc + 100,
              Some (unlockNotification i ((bps ! i)\<lparr>bp_unlocked := True\<rparr>)), True)
            = Inr (bps', sc', n', p')"
        by (simp add: Let_def)
      from Cons.IH [OF this]
      have len: "length bps' = length bps" and sc: "sc + 100 \<le> sc'"
        and keep: "\<And>k. k < length bps \<Longrightarrow>
                     bp_unlocked (bps[i := (bps ! i)\<lparr>bp_unlocked := True\<rparr>] ! k) \<Longrightarrow>
                     bp_unlocked (bps' ! k)"
        by simp_all
      have "bp_unlocked (bps' ! k)" if "k < length bps" and "bp_unlocked (bps ! k)" for k
      proof -
        from that have "bp_unlocked (bps[i := (bps ! i)\<lparr>bp_unlocked := True\<rparr>] ! k)"
          by (cases "k = i") (simp_all add: nth_list_update)
        with keep that show ?thesis by blast
      qed
      with len sc show ?thesis by simp
    next
      case False
      with \<open>i < length bps\<close> Cons.prems
      have "unlockLoop js (bps, sc, n, p) = Inr (bps', sc', n', p')"
        by auto
      from Cons.IH [OF this] show ?thesis by simp
    qed
  qed
qed

lemma unlockLoop_idle:
  "\<forall>k\<in>set js. sc < thresholds ! k \<Longrightarrow> unlockLoop js (bps, sc, n, p) = Inr v \<Longrightarrow>
     v = (bps, sc, n, p)"
  by (induction js) (auto split: if_splits)


lemma upt_split: "a \<le> k \<Longrightarrow> k < b \<Longrightarrow> [a..<b] = [a..<k] @ k # [Suc k..<b]"
  using upt_add_eq_append [of a k "b - k"] by (simp add: upt_conv_Cons)

lemma unlockLoop_complete:
  assumes run: "unlockLoop [a..<b] v = Inr (bps', sc', n', p')"
    and b: "b \<le> 10" and ak: "a \<le> k" and kb: "k < b"
  shows "bp_unlocked (bps' ! k) \<or> sc' < thresholds ! k"
proof -
  from run upt_split [OF ak kb]
  have "(case unlockLoop [a..<k] v of Inl e \<Rightarrow> Inl e | Inr w \<Rightarrow> unlockLoop (k # [Suc k..<b]) w)
          = Inr (bps', sc', n', p')"
    by (simp add: unlockLoop_append)
  then obtain bps1 sc1 n1 p1 where
    rest: "unlockLoop (k # [Suc k..<b]) (bps1, sc1, n1, p1) = Inr (bps', sc', n', p')"
    by (cases "unlockLoop [a..<k] v") auto
  then have klen: "k < length bps1"
    by (simp split: if_splits)
  show ?thesis
  proof (cases "\<not> bp_unlocked (bps1 ! k) \<and> sc1 \<ge> thresholds ! k")
    case True
    with rest klen
    have "unlockLoop [Suc k..<b] (bps1[k := (bps1 ! k)\<lparr>bp_unlocked := True\<rparr>], sc1 + 100,
              Some (unlockNotification k ((bps1 ! k)\<lparr>bp_unlocked := True\<rparr>)), True)
            = Inr (bps', sc', n', p')"
      by (simp add: Let_def)
    from unlockLoop_grows [OF this] klen show ?thesis by simp
  next
    case False
    with rest klen
    have tail: "unlockLoop [Suc k..<b] (bps1, sc1, n1, p1) = Inr (bps', sc', n', p')"
      by auto
    show ?thesis
    proof (cases "bp_unlocked (bps1 ! k)")
      case True
      with unlockLoop_grows [OF tail] klen show ?thesis by simp
    next
      case False
      with \<open>\<not> (\<not> bp_unlocked (bps1 ! k) \<and> sc1 \<ge> thresholds ! k)\<close>
      have low: "sc1 < thresholds ! k" by simp
      have "\<forall>j\<in>set [Suc k..<b]. sc1 < thresholds ! j"
      proof
        fix j assume "j \<in> set [Suc k..<b]"
        then have "k \<le> j" "j < 10" using b by auto
        from thresholds_mono [OF this] low show "sc1 < thresholds ! j" by simp
      qed
      from unlockLoop_idle [OF this tail] low show ?thesis by simp
    qed
  qed
qed

lemma collectCommon_complete:
  assumes "collectCommon now now2 s = Inr s'" and "1 \<le> i" and "i < 10"
  shows "bp_unlocked (blueprints s' ! i) \<or> score s' < thresholds ! i"
proof -
  from assms(1) obtain v bps' sc' n' p' where
    loop: "unlockLoop [1..<length thresholds] v = Inr (bps', sc', n', p')"
    and res: "blueprints s' = bps'" "score s' = sc'"
    by (auto simp add: collectCommon_def Let_def split: sum.splits)
  from loop have "unlockLoop [1..<10] v = Inr (bps', sc', n', p')"
    by (simp add: thresholds_length)
  from unlockLoop_complete [OF this _ assms(2) assms(3)] res show ?thesis by simp
qed


lemma cascade_run: "collectLooseLog 2000 2000 ''a'' cascadeDemo = Inr cascadeAfter"
  by code_simp

lemma cascade_facts:
  "cascadeAfter \<noteq> cascadeDemo" "score cascadeAfter = 450"
  "\<not> bp_unlocked (blueprints cascadeDemo ! 2)" "score cascadeDemo < thresholds ! 2"
  "\<not> bp_unlocked (blueprints cascadeAfter ! 3)"
  by code_simp+

text \<open>
  The claim C2 as stated fails: there is no run of the sweep in which blueprint \<open>i\<close>
  (\<open>1 \<le> i\<close>, \<open>i + 1 \<le> 9\<close>) is unlocked at its turn, its bonus brings the running score to
  the threshold of blueprint \<open>i + 1\<close>, and blueprint \<open>i + 1\<close> is still locked when the loop
  ends. The loop tests index \<open>i + 1\<close> after index \<open>i\<close>, on the score that already holds the
  bonus.
\<close>

theorem C2_counterexample:
  "\<not> (\<exists>v0 i bps1 sc1 n1 p1 bpsf scf nf pf.
        1 \<le> i \<and> i + 1 < length thresholds
      \<and> unlockLoop [1..<i] v0 = Inr (bps1, sc1, n1, p1)
      \<and> \<not> bp_unlocked (bps1 ! i) \<and> thresholds ! i \<le> sc1
      \<and> thresholds ! (i + 1) \<le> sc1 + 100
      \<and> unlockLoop [1..<length thresholds] v0 = Inr (bpsf, scf, nf, pf)
      \<and> \<not> bp_unlocked (bpsf ! (i + 1)))"
proof
  assume "\<exists>v0 i bps1 sc1 n1 p1 bpsf scf nf pf.
        1 \<le> i \<and> i + 1 < length thresholds
      \<and> unlockLoop [1..<i] v0 = Inr (bps1, sc1, n1, p1)
      \<and> \<not> bp_unlocked (bps1 ! i) \<and> thresholds ! i \<le> sc1
      \<and> thresholds ! (i + 1) \<le> sc1 + 100
      \<and> unlockLoop [1..<length thresholds] v0 = Inr (bpsf, scf, nf, pf)
      \<and> \<not> bp_unlocked (bpsf ! (i + 1))"
  then obtain v0 i bps1 sc1 n1 p1 bpsf scf nf pf where
    i1: "1 \<le> i" and i2: "i + 1 < 10"
    and pre: "unlockLoop [1..<i] v0 = Inr (bps1, sc1, n1, p1)"
    and locked: "\<not> bp_unlocked (bps1 ! i)" and reach: "thresholds ! i \<le> sc1"
    and push: "thresholds ! (i + 1) \<le> sc1 + 100"
    and full: "unlockLoop [1..<10] v0 = Inr (bpsf, scf, nf, pf)"
    and miss: "\<not> bp_unlocked (bpsf ! (i + 1))"
    by (auto simp add: thresholds_length)
  from i1 i2 have "[1..<10] = [1..<i] @ i # [Suc i..<10]"
    by (intro upt_split) simp_all
  with full pre have step: "unlockLoop (i # [Suc i..<10]) (bps1, sc1, n1, p1) = Inr (bpsf, scf, nf, pf)"
    by (simp add: unlockLoop_append)
  then have ilen: "i < length bps1"
    by (simp split: if_splits)
  with step locked reach
  have "unlockLoop [Suc i..<10] (bps1[i := (bps1 ! i)\<lparr>bp_unlocked := True\<rparr>], sc1 + 100,
              Some (unlockNotification i ((bps1 ! i)\<lparr>bp_unlocked := True\<rparr>)), True)
            = Inr (bpsf, scf, nf, pf)"
    by (simp add: Let_def)
  from unlockLoop_grows [OF this] have "sc1 + 100 \<le> scf" by simp
  with push have high: "thresholds ! (i + 1) \<le> scf" by simp
  from unlockLoop_complete [OF full, of "i + 1"] i1 i2
  have "bp_unlocked (bpsf ! (i + 1)) \<or> scf < thresholds ! (i + 1)" by simp
  with high miss show False by simp
qed

text \<open>
  C2 (amended). The sweep over the indices 1..9 is one forward pass in ascending order on
  the running score, and it misses no cascade: after every collection that went through
  (\<open>collectLooseLog\<close> or \<open>collectLog\<close> returned a changed state), each blueprint \<open>i\<close> in 1..9
  is unlocked or the final score is below its threshold.
\<close>

theorem C2_no_missed_cascade:
  assumes "collectLooseLog now now2 ident s = Inr s' \<or> collectLog now now2 ident s = Inr s'"
    and "s' \<noteq> s" and "1 \<le> i" and "i < 10"
  shows "bp_unlocked (blueprints s' ! i) \<or> score s' < thresholds ! i"
proof -
  from assms(1,2) obtain t where t: "collectCommon now now2 s = Inr t"
    and same: "blueprints s' = blueprints t" "score s' = score t"
    by (auto simp add: collectLooseLog_def collectLog_def
          split: option.splits if_splits sum.splits)
  from collectCommon_complete [OF t assms(3,4)] same show ?thesis by simp
qed

theorem C2_witness:
  "collectLooseLog 2000 2000 ''a'' cascadeDemo = Inr cascadeAfter
   \<and> cascadeAfter \<noteq> cascadeDemo
   \<and> \<not> bp_unlocked (blueprints cascadeDemo ! 2) \<and> score cascadeDemo < thresholds ! 2
   \<and> score cascadeAfter = 450 \<and> thresholds ! 2 = 300
   \<and> bp_unlocked (blueprints cascadeAfter ! 2)
   \<and> \<not> bp_unlocked (blueprints cascadeAfter ! 3) \<and> score cascadeAfter < thresholds ! 3"
proof -
  have thr: "thresholds ! 2 = 300" by (simp add: thresholds_def)
  from C2_no_missed_cascade [of 2000 2000 "''a''" cascadeDemo cascadeAfter 2]
       cascade_run cascade_facts(1)
  have "bp_unlocked (blueprints cascadeAfter ! 2) \<or> score cascadeAfter < thresholds ! 2"
    by simp
  with cascade_facts(2) thr have two: "bp_unlocked (blueprints cascadeAfter ! 2)" by simp
  from C2_no_missed_cascade [of 2000 2000 "''a''" cascadeDemo cascadeAfter 3]
       cascade_run cascade_facts(1)
  have "bp_unlocked (blueprints cascadeAfter ! 3) \<or> score cascadeAfter < thresholds ! 3"
    by simp
  with cascade_facts(5) have three: "score cascadeAfter < thresholds ! 3" by simp
  from cascade_run cascade_facts thr two three show ?thesis by simp
qed

section \<open>Invulnerability window\<close>

text \<open>
  C3. \<open>collectLooseLog(id)\<close> and \<open>collectLog(id)\<close> leave the whole state unchanged when no
  entity has the id, and when the entity found for the id is younger than 500 ms at the
  call time \<open>now\<close>. The result \<open>Inr s\<close> is the unchanged state, so \<open>woodCount\<close>, \<open>score\<close>,
  \<open>totalLogsCollected\<close>, the combo and the entity lists are the same before and after.
\<close>

theorem C3_invulnerable_noop:
  "(find (\<lambda>l. loose_id l = ident) (looseLogs s) = None
      \<longrightarrow> collectLooseLog now now2 ident s = Inr s)
 \<and> (\<forall>lg. find (\<lambda>l. loose_id l = ident) (looseLogs s) = Some lg \<and> now - loose_createdAt lg < 500
      \<longrightarrow> collectLooseLog now now2 ident s = Inr s)
 \<and> (find (\<lambda>l. log_id l = ident) (logs s) = None
      \<longrightarrow> collectLog now now2 ident s = Inr s)
 \<and> (\<forall>lg. find (\<lambda>l. log_id l = ident) (logs s) = Some lg \<and> now - log_createdAt lg < 500
      \<longrightarrow> collectLog now now2 ident s = Inr s)"
  by (simp add: collectLooseLog_def collectLog_def)

theorem C3_witness:
  "find (\<lambda>l. loose_id l = ''a'') (looseLogs demoState) = Some looseA
   \<and> 1200 - loose_createdAt looseA < 500
   \<and> collectLooseLog 1200 1200 ''a'' demoState = Inr demoState
   \<and> find (\<lambda>l. log_id l = ''a'') (logs demoState) = Some logA
   \<and> 1499 - log_createdAt logA < 500
   \<and> collectLog 1499 1499 ''a'' demoState = Inr demoState
   \<and> find (\<lambda>l. loose_id l = ''c'') (looseLogs demoState) = None
   \<and> collectLooseLog 9000 9000 ''c'' demoState = Inr demoState"
proof -
  have a: "1200 - loose_createdAt looseA < 500" by (simp add: looseA_def)
  have b: "1499 - log_createdAt logA < 500" by (simp add: logA_def)
  from C3_invulnerable_noop [of "''a''" demoState 1200 1200] demo_find_looseA a
  have 1: "collectLooseLog 1200 1200 ''a'' demoState = Inr demoState" by blast
  from C3_invulnerable_noop [of "''a''" demoState 1499 1499] demo_find_logA b
  have 2: "collectLog 1499 1499 ''a'' demoState = Inr demoState" by blast
  from C3_invulnerable_noop [of "''c''" demoState 9000 9000] demo_find_none
  have 3: "collectLooseLog 9000 9000 ''c'' demoState = Inr demoState" by blast
  from 1 2 3 a b demo_find_looseA demo_find_logA demo_find_none show ?thesis by blast
qed

section \<open>Wood gain of a collection\<close>

lemma collectCommon_wood:
  "collectCommon now now2 s = Inr t \<Longrightarrow>
     woodCount t = woodCount s + multiplier (combo t) \<and> combo t = fst (updateCombo now (combo s))
     \<and> totalLogsCollected t = totalLogsCollected s + 1"
  by (auto simp add: collectCommon_def Let_def split: sum.splits)

lemma collect_went_through:
  assumes "collectLooseLog now now2 ident s = Inr s' \<or> collectLog now now2 ident s = Inr s'"
    and "s' \<noteq> s"
  shows "\<exists>t. collectCommon now now2 s = Inr t \<and> combo s' = combo t \<and> woodCount s' = woodCount t
            \<and> score s' = score t \<and> blueprints s' = blueprints t
            \<and> totalLogsCollected s' = totalLogsCollected t"
  using assms
  by (auto simp add: collectLooseLog_def collectLog_def split: option.splits if_splits sum.splits)

lemma updateCombo_fresh:
  "\<not> active c \<Longrightarrow>
     fst (updateCombo now c) =
       \<lparr>active = True, startTime = now, logsCollected = 1, multiplier = 1, lastLogTime = now,
        logsSinceLastLevel = 1, levelStartTime = now\<rparr>"
  by (simp add: updateCombo_def freshCombo_def levelUp_def slowReset_def Let_def)

lemma updateCombo_second:
  "active c \<Longrightarrow> multiplier c = 1 \<Longrightarrow> logsCollected c = 1 \<Longrightarrow> now - startTime c < 40000 \<Longrightarrow>
     multiplier (fst (updateCombo now c)) = 2"
  by (simp add: updateCombo_def levelUp_def slowReset_def Let_def)

text \<open>
  C4. A collection that goes through (\<open>collectLooseLog\<close> or \<open>collectLog\<close> returns a changed
  state; the early returns give back the state itself) raises \<open>woodCount\<close> by exactly the
  combo multiplier of that event, that is the multiplier the event leaves in the combo
  after its level-up check. In particular, when no combo is active and two collections
  at times \<open>t1\<close> and \<open>t2\<close> with \<open>t2 - t1 < 40000\<close> go through, the first leaves the multiplier
  at 1 and adds 1 wood, the second raises the multiplier to 2 and adds 2 wood: 3 in total.
\<close>

theorem C4_wood_gain:
  "((collectLooseLog now now2 ident s = Inr s' \<or> collectLog now now2 ident s = Inr s') \<and> s' \<noteq> s
      \<longrightarrow> woodCount s' = woodCount s + multiplier (combo s'))
 \<and> (\<not> active (combo s)
      \<and> (collectLooseLog t1 t1' a s = Inr s1 \<or> collectLog t1 t1' a s = Inr s1) \<and> s1 \<noteq> s
      \<and> (collectLooseLog t2 t2' b s1 = Inr s2 \<or> collectLog t2 t2' b s1 = Inr s2) \<and> s2 \<noteq> s1
      \<and> t2 - t1 < 40000
      \<longrightarrow> multiplier (combo s1) = 1 \<and> woodCount s1 = woodCount s + 1
        \<and> multiplier (combo s2) = 2 \<and> woodCount s2 = woodCount s + 3)"
proof (rule conjI [OF impI impI])
  assume h: "(collectLooseLog now now2 ident s = Inr s' \<or> collectLog now now2 ident s = Inr s')
             \<and> s' \<noteq> s"
  then obtain t where "collectCommon now now2 s = Inr t" "combo s' = combo t"
    "woodCount s' = woodCount t"
    using collect_went_through [of now now2 ident s s'] by blast
  with collectCommon_wood [of now now2 s t]
  show "woodCount s' = woodCount s + multiplier (combo s')" by simp
next
  assume h: "\<not> active (combo s)
      \<and> (collectLooseLog t1 t1' a s = Inr s1 \<or> collectLog t1 t1' a s = Inr s1) \<and> s1 \<noteq> s
      \<and> (collectLooseLog t2 t2' b s1 = Inr s2 \<or> collectLog t2 t2' b s1 = Inr s2) \<and> s2 \<noteq> s1
      \<and> t2 - t1 < 40000"
  from h obtain u where u: "collectCommon t1 t1' s = Inr u" "combo s1 = combo u"
    "woodCount s1 = woodCount u"
    using collect_went_through [of t1 t1' a s s1] by blast
  from h obtain v where v: "collectCommon t2 t2' s1 = Inr v" "combo s2 = combo v"
    "woodCount s2 = woodCount v"
    using collect_went_through [of t2 t2' b s1 s2] by blast
  from h have c1: "combo s1 = \<lparr>active = True, startTime = t1, logsCollected = 1, multiplier = 1,
        lastLogTime = t1, logsSinceLastLevel = 1, levelStartTime = t1\<rparr>"
    using collectCommon_wood [OF u(1)] u(2) updateCombo_fresh [of "combo s" t1] by simp
  then have m1: "multiplier (combo s1) = 1" by simp
  from collectCommon_wood [OF u(1)] u m1 have w1: "woodCount s1 = woodCount s + 1" by simp
  from c1 h have "multiplier (fst (updateCombo t2 (combo s1))) = 2"
    by (intro updateCombo_second) simp_all
  with collectCommon_wood [OF v(1)] v have m2: "multiplier (combo s2) = 2" by simp
  from collectCommon_wood [OF v(1)] v m2 w1 have w2: "woodCount s2 = woodCount s + 3" by simp
  from m1 w1 m2 w2
  show "multiplier (combo s1) = 1 \<and> woodCount s1 = woodCount s + 1
        \<and> multiplier (combo s2) = 2 \<and> woodCount s2 = woodCount s + 3" by simp
qed

lemma demo_runs:
  "collectLooseLog 2000 2000 ''a'' demoState = Inr demoAfterOne"
  "collectLog 3000 3000 ''a'' demoAfterOne = Inr demoAfterTwo"
  "demoAfterOne \<noteq> demoState" "demoAfterTwo \<noteq> demoAfterOne"
  "\<not> active (combo demoState)" "woodCount demoState = 0"
  by code_simp+

theorem C4_witness:
  "\<not> active (combo demoState)
   \<and> collectLooseLog 2000 2000 ''a'' demoState = Inr demoAfterOne \<and> demoAfterOne \<noteq> demoState
   \<and> collectLog 3000 3000 ''a'' demoAfterOne = Inr demoAfterTwo \<and> demoAfterTwo \<noteq> demoAfterOne
   \<and> (3000 :: int) - 2000 < 40000
   \<and> woodCount demoState = 0
   \<and> multiplier (combo demoAfterOne) = 1 \<and> woodCount demoAfterOne = 1
   \<and> multiplier (combo demoAfterTwo) = 2 \<and> woodCount demoAfterTwo = 3"
proof -
  have lt: "(3000 :: int) - 2000 < 40000" by simp
  from C4_wood_gain [where s=demoState and ?s1.0=demoAfterOne and ?s2.0=demoAfterTwo
        and ?t1.0=2000 and t1'=2000 and a="''a''" and ?t2.0=3000 and t2'=3000 and b="''a''"]
       demo_runs lt
  have "multiplier (combo demoAfterOne) = 1 \<and> woodCount demoAfterOne = woodCount demoState + 1
        \<and> multiplier (combo demoAfterTwo) = 2 \<and> woodCount demoAfterTwo = woodCount demoState + 3"
    by blast
  with demo_runs lt show ?thesis by simp
qed

section \<open>Combo multiplier along a session\<close>

lemma updateCombo_step:
  assumes "active c \<or> multiplier c = 1"
  shows "active (fst (updateCombo now c))
    \<and> (multiplier (fst (updateCombo now c)) = multiplier c
       \<or> multiplier (fst (updateCombo now c)) = multiplier c + 1)"
  using assms
  by (auto simp add: updateCombo_def freshCombo_def levelUp_def slowReset_def Let_def)

lemma collect_combo:
  "combo (orKeep s (collectLooseLog now now2 ident s)) = combo s
   \<or> combo (orKeep s (collectLooseLog now now2 ident s)) = fst (updateCombo now (combo s))"
  "combo (orKeep s (collectLog now now2 ident s)) = combo s
   \<or> combo (orKeep s (collectLog now now2 ident s)) = fst (updateCombo now (combo s))"
  by (auto simp add: orKeep_def collectLooseLog_def collectLog_def
        dest: collectCommon_wood split: option.splits sum.splits)

lemma damageTree_combo: "combo (damageTree rnd clk ident amount s) = combo s"
  by (simp add: damageTree_def Let_def split: option.splits)

lemma tickDestruction_combo: "combo (tickDestruction rnd clk delta s) = combo s"
  by (simp add: tickDestruction_def Let_def split: option.splits)

lemma updateTime_combo: "combo (updateTime fl rnd clk delta pos s) = combo s"
  by (simp add: updateTime_def Let_def)

lemma placeStructure_combo: "combo (placeStructure now position s) = combo s"
  by (simp add: placeStructure_def Let_def split: option.splits)

lemma perform_combo:
  "combo (perform a s) = combo s
   \<or> (\<exists>now. combo (perform a s) = fst (updateCombo now (combo s)))
   \<or> (\<exists>d. combo (perform a s) = shiftCombo d (combo s))
   \<or> (endsCombo a \<and> \<not> active (combo (perform a s)) \<and> multiplier (combo (perform a s)) = 1)
   \<or> (\<not> active (combo s) \<and> active (combo (perform a s)) \<and> multiplier (combo (perform a s)) = 1)"
proof (cases a)
  case (CollectLooseLog now now2 ident)
  with collect_combo(1) [of s now now2 ident] show ?thesis by auto
next
  case (CollectLog now now2 ident)
  with collect_combo(2) [of s now now2 ident] show ?thesis by auto
next
  case (DismissNotification now)
  then show ?thesis by (auto simp add: dismissNotification_def Let_def)
next
  case (CloseBuildMenu now)
  then show ?thesis by (auto simp add: closeBuildMenu_def Let_def)
next
  case (SelectBlueprint now ident)
  then show ?thesis by (auto simp add: selectBlueprint_def Let_def)
qed (simp_all add: damageTree_combo tickDestruction_combo updateTime_combo placeStructure_combo
      startGame_def endGame_def cycleCameraMode_def addWood_def endCombo_def expireLooseLog_def
      placeLog_def setActiveTree_def updateDamIntegrity_def takeDamage_def heal_def collectFood_def
      openBuildMenu_def updatePlacementRotation_def
      setDestroyTarget_def startDestroying_def stopDestroying_def checkPowerups_def
      startChompingSession_def spawnMob_def removeMob_def checkCombo_def Let_def
      split: option.splits prod.splits)

lemma perform_comboOk: "comboOk s \<Longrightarrow> comboOk (perform a s)"
  using perform_combo [of a s] updateCombo_step [of "combo s"]
  by (auto simp add: comboOk_def shiftCombo_def)

lemma updateCombo_mono:
  "active c \<or> multiplier c = 1 \<Longrightarrow> multiplier c \<le> multiplier (fst (updateCombo now c))"
  using updateCombo_step [of c now] by auto

lemma perform_multiplier:
  assumes "comboOk s" and "\<not> endsCombo a"
  shows "multiplier (combo s) \<le> multiplier (combo (perform a s))"
proof -
  from assms(1) have ok: "active (combo s) \<or> multiplier (combo s) = 1"
    by (simp add: comboOk_def)
  from perform_combo [of a s] assms(2)
  consider "combo (perform a s) = combo s"
    | now where "combo (perform a s) = fst (updateCombo now (combo s))"
    | d where "combo (perform a s) = shiftCombo d (combo s)"
    | "\<not> active (combo s)" "multiplier (combo (perform a s)) = 1"
    by blast
  then show ?thesis
  proof cases
    case 1
    then show ?thesis by simp
  next
    case 2
    with updateCombo_mono [OF ok, of now] show ?thesis by simp
  next
    case 3
    then show ?thesis by (simp add: shiftCombo_def)
  next
    case 4
    with ok show ?thesis by simp
  qed
qed

lemma startGame_comboOk: "comboOk (startGame s)"
  by (simp add: comboOk_def startGame_def)

lemma performAll_comboOk: "comboOk s \<Longrightarrow> comboOk (performAll as s)"
  by (induction as arbitrary: s) (simp_all add: perform_comboOk)

lemma performAll_multiplier:
  "comboOk s \<Longrightarrow> \<forall>a\<in>set as. \<not> endsCombo a \<Longrightarrow>
     multiplier (combo s) \<le> multiplier (combo (performAll as s))"
proof (induction as arbitrary: s)
  case Nil
  then show ?case by simp
next
  case (Cons a as)
  from Cons.prems have "multiplier (combo s) \<le> multiplier (combo (perform a s))"
    by (simp add: perform_multiplier)
  moreover from Cons.prems have "multiplier (combo (perform a s))
      \<le> multiplier (combo (performAll as (perform a s)))"
    by (intro Cons.IH) (simp_all add: perform_comboOk)
  ultimately show ?case by simp
qed

lemma collection_step:
  assumes "comboOk s" and "isCollection a"
  shows "multiplier (combo (perform a s)) = multiplier (combo s)
       \<or> multiplier (combo (perform a s)) = multiplier (combo s) + 1"
proof (cases a)
  case (CollectLooseLog now now2 ident)
  with collect_combo(1) [of s now now2 ident] updateCombo_step [of "combo s" now] assms(1)
  show ?thesis by (auto simp add: comboOk_def)
next
  case (CollectLog now now2 ident)
  with collect_combo(2) [of s now now2 ident] updateCombo_step [of "combo s" now] assms(1)
  show ?thesis by (auto simp add: comboOk_def)
qed (use assms(2) in simp_all)


lemma session_runs:
  "performAll sessionPre (startGame demoState) = sessionPlaced"
  "performAll sessionPost sessionPlaced = sessionTwo"
  by (simp_all add: sessionPre_def sessionPost_def sessionPlaced_def sessionOne_def
        sessionTwo_def)

lemma session_values:
  "multiplier (combo sessionPlaced) = 1" "multiplier (combo sessionTwo) = 2"
  "woodCount sessionTwo = 3" "logs sessionTwo = []"
  by code_simp+

text \<open>
  C5. Within one session (any run \<open>pre\<close> of actions after a \<open>startGame\<close>), along every
  further run \<open>post\<close> of actions that holds no \<open>endCombo\<close>, \<open>openBuildMenu\<close> or \<open>startGame\<close>
  (in particular along every sequence of \<open>collectLog\<close> and \<open>collectLooseLog\<close> calls) the combo
  multiplier does not decrease, and each collection keeps it or raises it by one. The
  timeout handling (\<open>slowReset\<close>) leaves the multiplier, \<open>active\<close>, \<open>startTime\<close>,
  \<open>logsCollected\<close> and \<open>lastLogTime\<close> alone: it writes only \<open>logsSinceLastLevel\<close> and
  \<open>levelStartTime\<close>. The three excluded actions set the multiplier to 1.
\<close>

theorem C5_multiplier_monotone:
  "((\<forall>a\<in>set post. \<not> endsCombo a) \<longrightarrow>
       multiplier (combo (performAll pre (startGame s0)))
         \<le> multiplier (combo (performAll post (performAll pre (startGame s0)))))
 \<and> (isCollection a \<longrightarrow>
       (multiplier (combo (perform a (performAll pre (startGame s0))))
          = multiplier (combo (performAll pre (startGame s0)))
      \<or> multiplier (combo (perform a (performAll pre (startGame s0))))
          = multiplier (combo (performAll pre (startGame s0))) + 1))
 \<and> multiplier (slowReset now c) = multiplier c \<and> active (slowReset now c) = active c
 \<and> startTime (slowReset now c) = startTime c \<and> logsCollected (slowReset now c) = logsCollected c
 \<and> lastLogTime (slowReset now c) = lastLogTime c
 \<and> multiplier (combo (endCombo s)) = 1 \<and> multiplier (combo (openBuildMenu now s)) = 1
 \<and> multiplier (combo (startGame s)) = 1"
proof -
  have ok: "comboOk (performAll pre (startGame s0))"
    by (simp add: performAll_comboOk startGame_comboOk)
  have 1: "(\<forall>a\<in>set post. \<not> endsCombo a) \<longrightarrow>
       multiplier (combo (performAll pre (startGame s0)))
         \<le> multiplier (combo (performAll post (performAll pre (startGame s0))))"
    using performAll_multiplier [OF ok] by blast
  have 2: "isCollection a \<longrightarrow>
       (multiplier (combo (perform a (performAll pre (startGame s0))))
          = multiplier (combo (performAll pre (startGame s0)))
      \<or> multiplier (combo (perform a (performAll pre (startGame s0))))
          = multiplier (combo (performAll pre (startGame s0))) + 1)"
    using collection_step [OF ok] by blast
  have 3: "multiplier (slowReset now c) = multiplier c \<and> active (slowReset now c) = active c
    \<and> startTime (slowReset now c) = startTime c \<and> logsCollected (slowReset now c) = logsCollected c
    \<and> lastLogTime (slowReset now c) = lastLogTime c"
    by (simp add: slowReset_def Let_def)
  have 4: "multiplier (combo (endCombo s)) = 1 \<and> multiplier (combo (openBuildMenu now s)) = 1
    \<and> multiplier (combo (startGame s)) = 1"
    by (simp add: endCombo_def openBuildMenu_def startGame_def)
  from 1 2 3 4 show ?thesis by blast
qed

theorem C5_witness:
  "list_all (\<lambda>a. \<not> endsCombo a) sessionPost
   \<and> performAll sessionPre (startGame demoState) = sessionPlaced
   \<and> performAll sessionPost sessionPlaced = sessionTwo
   \<and> multiplier (combo sessionPlaced) = 1 \<and> multiplier (combo sessionTwo) = 2
   \<and> multiplier (combo sessionPlaced) \<le> multiplier (combo sessionTwo)"
proof -
  have all: "\<forall>a\<in>set sessionPost. \<not> endsCombo a"
    by (simp add: sessionPost_def)
  from C5_multiplier_monotone [where post=sessionPost and pre=sessionPre and ?s0.0=demoState] all
  have "multiplier (combo (performAll sessionPre (startGame demoState)))
         \<le> multiplier (combo (performAll sessionPost (performAll sessionPre (startGame demoState))))"
    by blast
  then have "multiplier (combo sessionPlaced) \<le> multiplier (combo sessionTwo)"
    by (simp only: session_runs)
  with all session_runs session_values show ?thesis
    by (simp add: list_all_iff)
qed

section \<open>Pause compensation\<close>

text \<open>
  How a pause is recorded: a collection that raises a notification stores its second clock
  read in \<open>lastPauseStartTime\<close>, and it leaves the combo active.
\<close>

lemma collection_pause_recorded:
  assumes "collectLooseLog now now2 ident s = Inr s' \<or> collectLog now now2 ident s = Inr s'"
    and "s' \<noteq> s" and "isPaused s'"
  shows "lastPauseStartTime s' = now2 \<and> active (combo s')"
proof -
  from assms(1,2) obtain t where t: "collectCommon now now2 s = Inr t"
    and same: "lastPauseStartTime s' = lastPauseStartTime t" "isPaused s' = isPaused t"
      "combo s' = combo t"
    by (auto simp add: collectLooseLog_def collectLog_def
          split: option.splits if_splits sum.splits)
  from t have "isPaused t \<longrightarrow> lastPauseStartTime t = now2"
    by (auto simp add: collectCommon_def Let_def split: sum.splits)
  moreover from t have "active (combo t)"
    using collectCommon_wood [OF t]
    by (simp add: updateCombo_def freshCombo_def levelUp_def slowReset_def Let_def)
  ultimately show ?thesis using same assms(3) by simp
qed

text \<open>
  C6. Let the session have been paused at \<open>T1\<close> (\<open>lastPauseStartTime = T1\<close>) with
  \<open>combo.startTime = T0\<close>. \<open>dismissNotification()\<close> at time \<open>T2\<close> clears \<open>isPaused\<close>; when the
  combo is active, \<open>startTime\<close> becomes \<open>T0 + (T2 - T1)\<close> and \<open>levelStartTime\<close> and
  \<open>lastLogTime\<close> move by the same amount; when it is inactive, the three timestamps stay.
\<close>

theorem C6_pause_compensation:
  assumes "lastPauseStartTime s = T1" and "startTime (combo s) = T0"
  shows "\<not> isPaused (dismissNotification T2 s)
    \<and> (active (combo s) \<longrightarrow>
          startTime (combo (dismissNotification T2 s)) = T0 + (T2 - T1)
        \<and> levelStartTime (combo (dismissNotification T2 s)) = levelStartTime (combo s) + (T2 - T1)
        \<and> lastLogTime (combo (dismissNotification T2 s)) = lastLogTime (combo s) + (T2 - T1))
    \<and> (\<not> active (combo s) \<longrightarrow>
          startTime (combo (dismissNotification T2 s)) = T0
        \<and> levelStartTime (combo (dismissNotification T2 s)) = levelStartTime (combo s)
        \<and> lastLogTime (combo (dismissNotification T2 s)) = lastLogTime (combo s))"
  using assms by (simp add: dismissNotification_def shiftCombo_def Let_def)

theorem C6_witness:
  "lastPauseStartTime pausedDemo = 5000 \<and> startTime (combo pausedDemo) = 100
   \<and> active (combo pausedDemo)
   \<and> \<not> isPaused (dismissNotification 8000 pausedDemo)
   \<and> startTime (combo (dismissNotification 8000 pausedDemo)) = 3100
   \<and> levelStartTime (combo (dismissNotification 8000 pausedDemo)) = 3100
   \<and> lastLogTime (combo (dismissNotification 8000 pausedDemo)) = 7000"
proof -
  have p: "lastPauseStartTime pausedDemo = 5000" and t: "startTime (combo pausedDemo) = 100"
    and a: "active (combo pausedDemo)" and l: "levelStartTime (combo pausedDemo) = 100"
    and g: "lastLogTime (combo pausedDemo) = 4000"
    by (simp_all add: pausedDemo_def)
  from C6_pause_compensation [OF p t, of 8000] a l g p t show ?thesis by simp
qed

text \<open>
  C7. \<open>dismissNotification()\<close>, \<open>closeBuildMenu()\<close> and \<open>selectBlueprint(id)\<close> leave
  \<open>logPowerupEndTime\<close> and \<open>treePowerupEndTime\<close> as they are; of the combo they change only
  \<open>startTime\<close>, \<open>levelStartTime\<close> and \<open>lastLogTime\<close>, each by the pause duration
  \<open>now - lastPauseStartTime\<close> when the combo is active.
\<close>

theorem C7_powerup_deadlines_not_shifted:
  "logPowerupEndTime (dismissNotification now s) = logPowerupEndTime s
 \<and> treePowerupEndTime (dismissNotification now s) = treePowerupEndTime s
 \<and> logPowerupEndTime (closeBuildMenu now s) = logPowerupEndTime s
 \<and> treePowerupEndTime (closeBuildMenu now s) = treePowerupEndTime s
 \<and> logPowerupEndTime (selectBlueprint now ident s) = logPowerupEndTime s
 \<and> treePowerupEndTime (selectBlueprint now ident s) = treePowerupEndTime s
 \<and> (\<forall>s'. s' = dismissNotification now s \<or> s' = closeBuildMenu now s
           \<or> s' = selectBlueprint now ident s
      \<longrightarrow> combo s' =
          (combo s)\<lparr>startTime := startTime (combo s)
                       + (if active (combo s) then now - lastPauseStartTime s else 0),
                    levelStartTime := levelStartTime (combo s)
                       + (if active (combo s) then now - lastPauseStartTime s else 0),
                    lastLogTime := lastLogTime (combo s)
                       + (if active (combo s) then now - lastPauseStartTime s else 0)\<rparr>)"
  by (auto simp add: dismissNotification_def closeBuildMenu_def selectBlueprint_def
        shiftCombo_def Let_def)

theorem C7_witness:
  "logPowerupEndTime (dismissNotification 8000 (pausedDemo\<lparr>logPowerupEndTime := 6000\<rparr>)) = 6000
   \<and> treePowerupEndTime (closeBuildMenu 8000 (pausedDemo\<lparr>treePowerupEndTime := 7000\<rparr>)) = 7000
   \<and> logPowerupEndTime (selectBlueprint 8000 ''bp-0'' (pausedDemo\<lparr>logPowerupEndTime := 6000\<rparr>)) = 6000"
  using C7_powerup_deadlines_not_shifted [of 8000 "pausedDemo\<lparr>logPowerupEndTime := 6000\<rparr>" "''bp-0''"]
        C7_powerup_deadlines_not_shifted [of 8000 "pausedDemo\<lparr>treePowerupEndTime := 7000\<rparr>" "''bp-0''"]
  by simp

section \<open>Placing a structure\<close>

text \<open>
  C9. When the selected blueprint costs more than the current \<open>woodCount\<close>,
  \<open>placeStructure(position)\<close> returns the state unchanged (no wood spent, no structure
  appended). When the wood suffices, it deducts exactly the cost and appends one
  structure whose \<open>health\<close> and \<open>maxHealth\<close> are both \<open>cost * 10\<close>.
\<close>

theorem C9_placeStructure:
  "(\<forall>b. find (\<lambda>b. Some (bp_id b) = selectedBlueprintId s) (blueprints s) = Some b
        \<and> woodCount s < bp_cost b \<longrightarrow> placeStructure now position s = s)
 \<and> (\<forall>b. \<not> falsy (selectedBlueprintId s)
        \<and> find (\<lambda>b. Some (bp_id b) = selectedBlueprintId s) (blueprints s) = Some b
        \<and> bp_cost b \<le> woodCount s \<longrightarrow>
        woodCount (placeStructure now position s) = woodCount s - bp_cost b
      \<and> (\<exists>st. placedStructures (placeStructure now position s) = placedStructures s @ [st]
             \<and> ps_health st = of_int (bp_cost b * 10) \<and> ps_maxHealth st = of_int (bp_cost b * 10)
             \<and> ps_blueprintId st = bp_id b \<and> ps_position st = position))"
  by (simp add: placeStructure_def Let_def)

theorem C9_witness:
  "find (\<lambda>b. Some (bp_id b) = selectedBlueprintId placingDemo) (blueprints placingDemo)
     = Some (plainCatalog ! 0)
   \<and> woodCount placingDemo = 5 \<and> bp_cost (plainCatalog ! 0) = 7
   \<and> placeStructure 1 (0, 0, 0) placingDemo = placingDemo
   \<and> woodCount (placeStructure 1 (0, 0, 0) (placingDemo\<lparr>woodCount := 20\<rparr>)) = 13"
proof -
  have lt: "woodCount placingDemo < bp_cost (plainCatalog ! 0)"
    by (simp add: placing_wood placing_cost)
  from C9_placeStructure [of placingDemo 1 "(0, 0, 0)"] placing_find lt
  have 1: "placeStructure 1 (0, 0, 0) placingDemo = placingDemo" by blast
  have le: "bp_cost (plainCatalog ! 0) \<le> woodCount (placingDemo\<lparr>woodCount := 20\<rparr>)"
    by (simp add: placing_cost)
  from C9_placeStructure [of "placingDemo\<lparr>woodCount := 20\<rparr>" 1 "(0, 0, 0)"]
       placing_find_rich placing_truthy le
  have "woodCount (placeStructure 1 (0, 0, 0) (placingDemo\<lparr>woodCount := 20\<rparr>))
        = woodCount (placingDemo\<lparr>woodCount := 20\<rparr>) - bp_cost (plainCatalog ! 0)" by blast
  then have 2: "woodCount (placeStructure 1 (0, 0, 0) (placingDemo\<lparr>woodCount := 20\<rparr>)) = 13"
    by (simp add: placing_cost)
  from 1 2 placing_find placing_wood placing_cost show ?thesis by blast
qed

section \<open>The day clock\<close>

lemma floats_finite: "finite (floats P E K)"
proof -
  have "floats P E K \<subseteq> (\<lambda>(m, k). of_int (m * 2 ^ k) / 2 ^ E) ` ({- (2 ^ P) <..< 2 ^ P} \<times> {..K})"
  proof
    fix x assume "x \<in> floats P E K"
    then obtain m :: int and k :: nat where "\<bar>m\<bar> < 2 ^ P" "k \<le> K"
      "x = of_int (m * 2 ^ k) / 2 ^ E"
      by (auto simp add: floats_def)
    then show "x \<in> (\<lambda>(m, k). of_int (m * 2 ^ k) / 2 ^ E) ` ({- (2 ^ P) <..< 2 ^ P} \<times> {..K})"
      by (intro image_eqI [where x="(m, k)"]) auto
  qed
  then show ?thesis
    by (rule finite_subset) simp
qed

lemma floats_below_one:
  assumes x: "x \<in> floats P E K" and lt: "x < 1" and P: "1 \<le> P" and PE: "P \<le> E"
  shows "x \<le> 1 - 1 / 2 ^ P"
proof -
  from x obtain m :: int and k :: nat where m: "\<bar>m\<bar> < 2 ^ P"
    and xe: "x = of_int (m * 2 ^ k) / 2 ^ E"
    by (auto simp add: floats_def)
  define M where "M = m * 2 ^ k"
  from lt xe have "real_of_int M < real_of_int (2 ^ E)" by (simp add: M_def)
  then have Mlt: "M < 2 ^ E" by (simp only: of_int_less_iff)
  have E: "(2::int) ^ E = 2 ^ P * 2 ^ (E - P)"
    using PE by (simp flip: power_add)
  have "M \<le> (2 ^ P - 1) * 2 ^ (E - P)"
  proof (cases "E - P \<le> k")
    case True
    define q where "q = m * 2 ^ (k - (E - P))"
    have Mq: "M = q * 2 ^ (E - P)"
      using True by (simp add: M_def q_def flip: power_add)
    with Mlt E have "q * 2 ^ (E - P) < 2 ^ P * 2 ^ (E - P)" by simp
    then have "q < 2 ^ P" by simp
    then have "q \<le> 2 ^ P - 1" by simp
    then show ?thesis unfolding Mq by (intro mult_right_mono) simp_all
  next
    case False
    then have k: "Suc k \<le> E - P" by simp
    from m have "m < 2 ^ P" by simp
    then have "M < 2 ^ P * 2 ^ k" by (simp add: M_def)
    also have "(2::int) ^ P * 2 ^ k \<le> 2 ^ P * 2 ^ (E - P - 1)"
      using k by (intro mult_left_mono power_increasing) simp_all
    also have "(2::int) ^ P * 2 ^ (E - P - 1) = 2 ^ (P - 1) * 2 ^ (E - P)"
      using P k by (simp flip: power_add)
    also have "\<dots> \<le> (2 ^ P - 1) * 2 ^ (E - P)"
    proof (intro mult_right_mono)
      have "(2::int) ^ P = 2 * 2 ^ (P - 1)" using P by (cases P) simp_all
      then show "(2::int) ^ (P - 1) \<le> 2 ^ P - 1" by simp
    qed simp
    finally show ?thesis by simp
  qed
  then have "real_of_int M \<le> real_of_int ((2 ^ P - 1) * 2 ^ (E - P))"
    by (simp only: of_int_le_iff)
  then have "real_of_int M \<le> (2 ^ P - 1) * 2 ^ (E - P)" by simp
  then have "x \<le> (2 ^ P - 1) * 2 ^ (E - P) / 2 ^ E"
    unfolding xe M_def [symmetric] by (intro divide_right_mono) simp_all
  also have "(2 ^ P - 1) * 2 ^ (E - P) / 2 ^ E = ((2::real) ^ P - 1) / 2 ^ P"
    using PE by (simp add: power_diff field_simps)
  also have "\<dots> = 1 - 1 / 2 ^ P" by (simp add: field_simps)
  finally show ?thesis .
qed


lemma floats_ratio:
  assumes d: "d \<in> floats P E K" and D: "D \<in> floats P E K" and d0: "0 \<le> d" and dD: "d < D"
  shows "d / D \<le> 1 - 1 / 2 ^ P"
proof -
  from d obtain m1 :: int and k1 :: nat where m1: "\<bar>m1\<bar> < 2 ^ P"
    and de: "d = of_int (m1 * 2 ^ k1) / 2 ^ E"
    by (auto simp add: floats_def)
  from D obtain m2 :: int and k2 :: nat where m2: "\<bar>m2\<bar> < 2 ^ P"
    and De: "D = of_int (m2 * 2 ^ k2) / 2 ^ E"
    by (auto simp add: floats_def)
  define A where "A = m1 * 2 ^ k1"
  define B where "B = m2 * 2 ^ k2"
  define u :: int where "u = 2 ^ min k1 k2"
  have dA: "d = of_int A / 2 ^ E" and DB: "D = of_int B / 2 ^ E"
    by (simp_all add: de De A_def B_def)
  from dD have "real_of_int A < real_of_int B"
    by (simp add: dA DB divide_less_cancel)
  then have AB: "A < B" by (simp only: of_int_less_iff)
  have "(0::real) < 2 ^ E" by simp
  with d0 have "0 \<le> real_of_int A" unfolding dA by (simp add: zero_le_divide_iff)
  then have A0: "0 \<le> A" by (simp only: of_int_0_le_iff)
  have upos: "0 < u" by (simp add: u_def)
  have "u dvd A" "u dvd B"
    by (simp_all add: u_def A_def B_def le_imp_power_dvd)
  then have "u dvd B - A" by simp
  with AB have gap: "u \<le> B - A" by (simp add: zdvd_imp_le)
  have key: "A * 2 ^ P \<le> B * (2 ^ P - 1)"
  proof (cases "B \<le> 2 ^ P * u")
    case True
    have a: "u * 2 ^ P \<le> (B - A) * 2 ^ P" by (rule mult_right_mono [OF gap]) simp
    have b: "B \<le> u * 2 ^ P" using True by (simp add: mult.commute)
    from b a have "B \<le> (B - A) * 2 ^ P" by (rule order_trans)
    then show ?thesis by (simp add: algebra_simps)
  next
    case False
    then have big: "2 ^ P * u < B" by simp
    have "k1 < k2"
    proof (rule ccontr)
      assume "\<not> k1 < k2"
      then have "u = 2 ^ k2" by (simp add: u_def min_def)
      moreover from m2 have "m2 < 2 ^ P" by simp
      then have "m2 * 2 ^ k2 < 2 ^ P * 2 ^ k2" by simp
      ultimately show False using big by (simp add: B_def)
    qed
    then have uA: "A = m1 * u" by (simp add: u_def A_def min_def)
    from m1 have "m1 \<le> 2 ^ P - 1" by simp
    then have "A \<le> (2 ^ P - 1) * u" unfolding uA using upos by (intro mult_right_mono) simp_all
    then have "A * 2 ^ P \<le> (2 ^ P - 1) * u * 2 ^ P" by (intro mult_right_mono) simp_all
    also have "\<dots> = (2 ^ P - 1) * (2 ^ P * u)" by (simp add: algebra_simps)
    also have "\<dots> \<le> (2 ^ P - 1) * B" using big by (intro mult_left_mono) simp_all
    finally show ?thesis by (simp add: mult.commute)
  qed
  from AB A0 have Bpos: "0 < real_of_int B" by simp
  from key have "real_of_int (A * 2 ^ P) \<le> real_of_int (B * (2 ^ P - 1))"
    by (simp only: of_int_le_iff)
  then have "real_of_int A * 2 ^ P \<le> real_of_int B * (2 ^ P - 1)" by simp
  then have "real_of_int A / real_of_int B \<le> (2 ^ P - 1) / 2 ^ P"
    using Bpos by (simp add: field_simps)
  moreover have "d / D = real_of_int A / real_of_int B" by (simp add: dA DB)
  moreover have "((2::real) ^ P - 1) / 2 ^ P = 1 - 1 / 2 ^ P" by (simp add: field_simps)
  ultimately show ?thesis by simp
qed


lemma double_intro:
  "\<bar>m\<bar> < 2 ^ 53 \<Longrightarrow> k \<le> 2045 \<Longrightarrow> x = of_int (m * 2 ^ k) / 2 ^ 1074 \<Longrightarrow> x \<in> doubles"
  by (auto simp add: doubles_def floats_def)

lemma small_int_double:
  assumes "\<bar>n\<bar> < 2 ^ 53"
  shows "real_of_int n \<in> doubles"
  using assms by (intro double_intro [where m=n and k=1074]) simp_all

lemma double_0: "0 \<in> doubles" and double_1: "1 \<in> doubles" and double_2: "2 \<in> doubles"
  using small_int_double [of 0] small_int_double [of 1] small_int_double [of 2] by simp_all

lemma pow_split: "(2::real) ^ 1074 = 2 ^ 53 * 2 ^ 1021" "(2::real) ^ 1074 = 2 ^ 52 * 2 ^ 1022"
  by (simp_all flip: power_add)

lemma double_belowOne: "belowOne \<in> doubles"
proof (rule double_intro [where m="2 ^ 53 - 1" and k=1021])
  show "belowOne = real_of_int ((2 ^ 53 - 1) * 2 ^ 1021) / 2 ^ 1074"
    unfolding pow_split(1) belowOne_def by (simp add: field_simps)
qed simp_all

lemma double_twice: "2 * belowOne \<in> doubles"
proof (rule double_intro [where m="2 ^ 53 - 1" and k=1022])
  have "(2::real) ^ 1022 = 2 * 2 ^ 1021" by simp
  then show "2 * belowOne = real_of_int ((2 ^ 53 - 1) * 2 ^ 1022) / 2 ^ 1074"
    unfolding pow_split(1) belowOne_def by (simp add: field_simps)
qed simp_all

lemma double_wrap: "2 * belowOne - 1 \<in> doubles"
proof (rule double_intro [where m="2 ^ 52 - 1" and k=1022])
  show "2 * belowOne - 1 = real_of_int ((2 ^ 52 - 1) * 2 ^ 1022) / 2 ^ 1074"
    unfolding pow_split(2) belowOne_def by (simp add: field_simps)
qed simp_all

lemma double_below_one: "x \<in> doubles \<Longrightarrow> x < 1 \<Longrightarrow> x \<le> belowOne"
  using floats_below_one [of x 53 1074 2045] by (simp add: doubles_def belowOne_def)

lemma double_ratio: "d \<in> doubles \<Longrightarrow> D \<in> doubles \<Longrightarrow> 0 \<le> d \<Longrightarrow> d < D \<Longrightarrow> d / D \<le> belowOne"
  using floats_ratio [of d 53 1074 2045 D] by (simp add: doubles_def belowOne_def)

lemma roundDown_rounding: "doubleRounding roundDown"
  unfolding doubleRounding_def
proof (intro allI impI)
  fix a b x :: real
  assume h: "a \<in> doubles \<and> b \<in> doubles \<and> a \<le> x \<and> x \<le> b"
  let ?S = "{v \<in> doubles. v \<le> x}"
  have fin: "finite ?S" by (simp add: doubles_def floats_finite)
  from h have ne: "a \<in> ?S" by simp
  then have "?S \<noteq> {}" by blast
  from Max_in [OF fin this] have "Max ?S \<in> doubles" "Max ?S \<le> x" by simp_all
  moreover from Max_ge [OF fin ne] have "a \<le> Max ?S" .
  ultimately show "roundDown x \<in> doubles \<and> a \<le> roundDown x \<and> roundDown x \<le> b"
    using h by (simp add: roundDown_def)
qed

lemma rounding_fixes: "doubleRounding fl \<Longrightarrow> v \<in> doubles \<Longrightarrow> fl v = v"
  unfolding doubleRounding_def by (meson order_antisym order_refl)

lemma double_half: "1 / 2 \<in> doubles"
  by (rule double_intro [where m=1 and k=1073]) simp_all

lemma roundDown_fixes:
  "roundDown 0 = 0" "roundDown 1 = 1" "roundDown 2 = 2" "roundDown (1 / 2) = 1 / 2"
  using rounding_fixes [OF roundDown_rounding]
  by (simp_all add: double_0 double_1 double_2 double_half)

lemma updateTime_dayDuration: "dayDuration (updateTime fl rnd clk delta pos s) = dayDuration s"
  by (simp add: updateTime_def Let_def)

lemma updateTime_timeOfDay:
  "\<not> isPaused s \<Longrightarrow>
     timeOfDay (updateTime fl rnd clk delta pos s) =
       (if fl (timeOfDay s + fl (delta / dayDuration s)) \<ge> 1
        then fl (fl (timeOfDay s + fl (delta / dayDuration s)) - 1)
        else fl (timeOfDay s + fl (delta / dayDuration s)))"
  by (simp add: updateTime_def Let_def)

text \<open>
  One tick keeps the clock a double in \<open>[0,1)\<close>: the quotient of two doubles \<open>delta <
  dayDuration\<close> is at most the largest double below 1, and so is the clock, so their sum is
  at most \<open>2 * belowOne\<close>, a double below 2.
\<close>

lemma updateTime_in_range:
  assumes fl: "doubleRounding fl"
    and t: "timeOfDay s \<in> doubles" "0 \<le> timeOfDay s" "timeOfDay s < 1"
    and D: "dayDuration s \<in> doubles"
    and d: "delta \<in> doubles" "0 \<le> delta" "delta < dayDuration s"
  shows "timeOfDay (updateTime fl rnd clk delta pos s) \<in> doubles
    \<and> 0 \<le> timeOfDay (updateTime fl rnd clk delta pos s)
    \<and> timeOfDay (updateTime fl rnd clk delta pos s) < 1"
proof (cases "isPaused s")
  case True
  with t show ?thesis by (simp add: updateTime_def)
next
  case False
  note between = fl [unfolded doubleRounding_def, rule_format]
  define x where "x = fl (delta / dayDuration s)"
  define y where "y = fl (timeOfDay s + x)"
  have b1: "belowOne < 1" by (simp add: belowOne_def)
  from d D have "0 \<le> delta / dayDuration s" by simp
  moreover from double_ratio [OF d(1) D d(2) d(3)] have "delta / dayDuration s \<le> belowOne" .
  ultimately have x: "0 \<le> x" "x \<le> belowOne"
    using between [of 0 belowOne "delta / dayDuration s"] double_0 double_belowOne
    by (simp_all add: x_def)
  from double_below_one [OF t(1) t(3)] have tb: "timeOfDay s \<le> belowOne" .
  from x t(2) tb have "0 \<le> timeOfDay s + x" "timeOfDay s + x \<le> 2 * belowOne" by simp_all
  then have y: "y \<in> doubles" "0 \<le> y" "y \<le> 2 * belowOne"
    using between [of 0 "2 * belowOne" "timeOfDay s + x"] double_0 double_twice
    by (simp_all add: y_def)
  have res: "timeOfDay (updateTime fl rnd clk delta pos s) = (if y \<ge> 1 then fl (y - 1) else y)"
    by (simp add: updateTime_timeOfDay [OF False] x_def y_def)
  show ?thesis
  proof (cases "y \<ge> 1")
    case True
    with y have "0 \<le> y - 1" "y - 1 \<le> 2 * belowOne - 1" by simp_all
    then have "fl (y - 1) \<in> doubles" "0 \<le> fl (y - 1)" "fl (y - 1) \<le> 2 * belowOne - 1"
      using between [of 0 "2 * belowOne - 1" "y - 1"] double_0 double_wrap by simp_all
    with True b1 show ?thesis by (simp add: res)
  next
    case False
    with y show ?thesis by (simp add: res)
  qed
qed

lemma updateTimes_dayDuration: "dayDuration (updateTimes fl cs s) = dayDuration s"
  by (induction fl cs s rule: updateTimes.induct) (simp_all add: updateTime_dayDuration)

lemma updateTimes_in_range:
  "doubleRounding fl \<Longrightarrow> timeOfDay s \<in> doubles \<Longrightarrow> 0 \<le> timeOfDay s \<Longrightarrow> timeOfDay s < 1 \<Longrightarrow>
   dayDuration s \<in> doubles \<Longrightarrow>
   \<forall>c\<in>set cs. fst (snd (snd c)) \<in> doubles \<and> 0 \<le> fst (snd (snd c))
      \<and> fst (snd (snd c)) < dayDuration s \<Longrightarrow>
     timeOfDay (updateTimes fl cs s) \<in> doubles
     \<and> 0 \<le> timeOfDay (updateTimes fl cs s) \<and> timeOfDay (updateTimes fl cs s) < 1"
proof (induction fl cs s rule: updateTimes.induct)
  case (1 fl s)
  then show ?case by simp
next
  case (2 fl rnd clk delta playerPos cs s)
  from "2.prems" have step: "timeOfDay (updateTime fl rnd clk delta playerPos s) \<in> doubles
      \<and> 0 \<le> timeOfDay (updateTime fl rnd clk delta playerPos s)
      \<and> timeOfDay (updateTime fl rnd clk delta playerPos s) < 1"
    by (intro updateTime_in_range) simp_all
  with "2.prems"
  have "timeOfDay (updateTimes fl cs (updateTime fl rnd clk delta playerPos s)) \<in> doubles
      \<and> 0 \<le> timeOfDay (updateTimes fl cs (updateTime fl rnd clk delta playerPos s))
      \<and> timeOfDay (updateTimes fl cs (updateTime fl rnd clk delta playerPos s)) < 1"
    by (intro "2.IH") (simp_all add: updateTime_dayDuration)
  then show ?case by simp
qed

text \<open>
  With a delta of twice the day, every exact result (2, 2 and 1) is a double, so every
  rounding leaves it as it is and the clock ends at 1.
\<close>

lemma overshoot_any_rounding:
  assumes "doubleRounding fl"
  shows "timeOfDay (updateTime fl (\<lambda>k. 1) (\<lambda>k. 0) 600 (0, 0, 0) demoState) = 1"
  using rounding_fixes [OF assms double_1] rounding_fixes [OF assms double_2]
  by (simp add: updateTime_def demoState_def initialState_def Let_def)

text \<open>
  The claim C8 as stated fails: \<open>updateTime\<close> subtracts 1 at most once, so one call whose
  \<open>delta / dayDuration\<close> is 2 takes \<open>timeOfDay\<close> from 0 to 1, outside \<open>[0,1)\<close>.
\<close>

theorem C8_counterexample:
  "doubleRounding roundDown
   \<and> timeOfDay demoState = 0 \<and> \<not> isPaused demoState \<and> dayDuration demoState = 300
   \<and> 600 / dayDuration demoState > 1
   \<and> timeOfDay (updateTime roundDown (\<lambda>k. 1) (\<lambda>k. 0) 600 (0, 0, 0) demoState) = 1
   \<and> \<not> timeOfDay (updateTime roundDown (\<lambda>k. 1) (\<lambda>k. 0) 600 (0, 0, 0) demoState) < 1"
  using overshoot_any_rounding [OF roundDown_rounding] roundDown_rounding
  by (simp add: demoState_def initialState_def)

text \<open>
  C8 (amended). Let \<open>timeOfDay\<close> be a double in \<open>[0,1)\<close> and \<open>dayDuration\<close> a positive double.
  Along every sequence of \<open>updateTime\<close> calls whose deltas are doubles with
  \<open>0 \<le> delta < dayDuration\<close> (the cumulative \<open>delta / dayDuration\<close> may exceed 1), computed in
  double arithmetic, \<open>timeOfDay\<close> is in \<open>[0,1)\<close> after every call. An unpaused call sets the
  clock to the rounded sum of \<open>timeOfDay\<close> and the rounded \<open>delta / dayDuration\<close>, less 1
  when that sum reaches 1.
\<close>

theorem C8_day_clock_range:
  assumes "doubleRounding fl"
    and "timeOfDay s \<in> doubles" and "0 \<le> timeOfDay s" and "timeOfDay s < 1"
    and "dayDuration s \<in> doubles" and "0 < dayDuration s"
    and "\<forall>c\<in>set calls. fst (snd (snd c)) \<in> doubles \<and> 0 \<le> fst (snd (snd c))
           \<and> fst (snd (snd c)) < dayDuration s"
  shows "(\<forall>n. 0 \<le> timeOfDay (updateTimes fl (take n calls) s)
             \<and> timeOfDay (updateTimes fl (take n calls) s) < 1)
    \<and> (\<forall>rnd clk delta pos. \<not> isPaused s \<longrightarrow>
          timeOfDay (updateTime fl rnd clk delta pos s) =
            (if fl (timeOfDay s + fl (delta / dayDuration s)) \<ge> 1
             then fl (fl (timeOfDay s + fl (delta / dayDuration s)) - 1)
             else fl (timeOfDay s + fl (delta / dayDuration s))))"
proof -
  have "0 \<le> timeOfDay (updateTimes fl (take n calls) s)
          \<and> timeOfDay (updateTimes fl (take n calls) s) < 1" for n
  proof -
    from assms(7)
    have "\<forall>c\<in>set (take n calls). fst (snd (snd c)) \<in> doubles \<and> 0 \<le> fst (snd (snd c))
           \<and> fst (snd (snd c)) < dayDuration s"
      by (meson in_set_takeD)
    from updateTimes_in_range [OF assms(1-5) this] show ?thesis by simp
  qed
  then show ?thesis by (simp add: updateTime_timeOfDay)
qed

lemma dayCalls_ok:
  "timeOfDay demoState \<in> doubles" "0 \<le> timeOfDay demoState" "timeOfDay demoState < 1"
  "dayDuration demoState \<in> doubles" "0 < dayDuration demoState"
  "\<forall>c\<in>set dayCalls. fst (snd (snd c)) \<in> doubles \<and> 0 \<le> fst (snd (snd c))
      \<and> fst (snd (snd c)) < dayDuration demoState"
  using small_int_double [of 150] small_int_double [of 300] double_0
  by (simp_all add: demoState_def initialState_def dayCalls_def)

lemma dayCalls_value: "timeOfDay (updateTimes roundDown dayCalls demoState) = 1 / 2"
  by (simp add: dayCalls_def updateTime_def demoState_def initialState_def Let_def
        roundDown_fixes)

theorem C8_witness:
  "doubleRounding roundDown
   \<and> timeOfDay demoState \<in> doubles \<and> 0 \<le> timeOfDay demoState \<and> timeOfDay demoState < 1
   \<and> dayDuration demoState \<in> doubles \<and> 0 < dayDuration demoState
   \<and> list_all (\<lambda>c. fst (snd (snd c)) \<in> doubles \<and> 0 \<le> fst (snd (snd c))
                  \<and> fst (snd (snd c)) < dayDuration demoState) dayCalls
   \<and> (150 + 150 + 150) / dayDuration demoState > 1
   \<and> timeOfDay (updateTimes roundDown dayCalls demoState) = 1 / 2
   \<and> 0 \<le> timeOfDay (updateTimes roundDown dayCalls demoState)
   \<and> timeOfDay (updateTimes roundDown dayCalls demoState) < 1"
proof -
  from C8_day_clock_range [OF roundDown_rounding dayCalls_ok]
  have "0 \<le> timeOfDay (updateTimes roundDown (take 3 dayCalls) demoState)
          \<and> timeOfDay (updateTimes roundDown (take 3 dayCalls) demoState) < 1"
    by blast
  moreover have "take 3 dayCalls = dayCalls" by (simp add: dayCalls_def)
  moreover have "(150 + 150 + 150) / dayDuration demoState > 1"
    by (simp add: demoState_def initialState_def)
  ultimately show ?thesis
    using dayCalls_ok dayCalls_value roundDown_rounding by (simp add: list_all_iff)
qed


lemma floats_halve: "x \<in> floats P E K \<Longrightarrow> x / 2 \<in> floats P (Suc E) K"
  by (auto simp add: floats_def)

lemma double_below_two:
  assumes "x \<in> doubles" and "x < 2"
  shows "x \<le> 2 * belowOne"
proof -
  from assms(1) have "x / 2 \<in> floats 53 (Suc 1074) 2045"
    unfolding doubles_def by (rule floats_halve)
  from floats_below_one [OF this] assms(2) have "x / 2 \<le> 1 - 1 / 2 ^ 53" by simp
  then show ?thesis by (simp add: belowOne_def)
qed

lemma roundUp_rounding: "doubleRounding roundUp"
  unfolding doubleRounding_def
proof (intro allI impI)
  fix a b x :: real
  assume h: "a \<in> doubles \<and> b \<in> doubles \<and> a \<le> x \<and> x \<le> b"
  let ?S = "{v \<in> doubles. x \<le> v}"
  have fin: "finite ?S" by (simp add: doubles_def floats_finite)
  from h have ne: "b \<in> ?S" by simp
  then have "?S \<noteq> {}" by blast
  from Min_in [OF fin this] have "Min ?S \<in> doubles" "x \<le> Min ?S" by simp_all
  moreover from Min_le [OF fin ne] have "Min ?S \<le> b" .
  ultimately show "roundUp x \<in> doubles \<and> a \<le> roundUp x \<and> roundUp x \<le> b"
    using h by (simp add: roundUp_def)
qed

lemma roundUp_near_two: "roundUp (belowOne + 1) = 2"
  unfolding roundUp_def
proof (rule Min_eqI)
  show "finite {v \<in> doubles. belowOne + 1 \<le> v}" by (simp add: doubles_def floats_finite)
  show "2 \<in> {v \<in> doubles. belowOne + 1 \<le> v}" by (simp add: double_2 belowOne_def)
next
  fix v assume "v \<in> {v \<in> doubles. belowOne + 1 \<le> v}"
  then have v: "v \<in> doubles" "belowOne + 1 \<le> v" by simp_all
  show "2 \<le> v"
  proof (rule ccontr)
    assume "\<not> 2 \<le> v"
    then have "v \<le> 2 * belowOne" using double_below_two [OF v(1)] by simp
    with v(2) show False by (simp add: belowOne_def)
  qed
qed

text \<open>
  Why the bound on delta is strict: with \<open>delta = dayDuration\<close> and the clock at the largest
  double below 1, the exact sum lies between the doubles \<open>2 * belowOne\<close> and 2; a rounding
  that takes it to 2 leaves the clock at 1.
\<close>

lemma closed_bound_overshoots:
  "timeOfDay (updateTime roundUp (\<lambda>k. 1) (\<lambda>k. 0) 300 (0, 0, 0) (demoState\<lparr>timeOfDay := belowOne\<rparr>)) = 1"
  using rounding_fixes [OF roundUp_rounding double_1] roundUp_near_two
  by (simp add: updateTime_def demoState_def initialState_def Let_def)

section \<open>Healing and overheal\<close>

lemma collectCommon_health:
  "collectCommon now now2 s = Inr t \<Longrightarrow> health t = health s \<and> maxHealth t = maxHealth s"
  by (auto simp add: collectCommon_def Let_def split: sum.splits)

lemma collect_health:
  "health (orKeep s (collectLooseLog now now2 ident s)) = health s
   \<and> maxHealth (orKeep s (collectLooseLog now now2 ident s)) = maxHealth s"
  "health (orKeep s (collectLog now now2 ident s)) = health s
   \<and> maxHealth (orKeep s (collectLog now now2 ident s)) = maxHealth s"
  by (auto simp add: orKeep_def collectLooseLog_def collectLog_def
        dest: collectCommon_health split: option.splits sum.splits)

lemma damageTree_health:
  "health (damageTree rnd clk ident amount s) = health s
   \<and> maxHealth (damageTree rnd clk ident amount s) = maxHealth s"
  by (simp add: damageTree_def Let_def split: option.splits)

lemma tickDestruction_health:
  "health (tickDestruction rnd clk delta s) = health s
   \<and> maxHealth (tickDestruction rnd clk delta s) = maxHealth s"
  by (simp add: tickDestruction_def Let_def split: option.splits)

lemma placeStructure_health:
  "health (placeStructure now position s) = health s
   \<and> maxHealth (placeStructure now position s) = maxHealth s"
  by (simp add: placeStructure_def Let_def split: option.splits)

lemma updateTime_health:
  "health s \<le> maxHealth s \<Longrightarrow>
     health (updateTime fl rnd clk delta pos s) = health s
     \<and> maxHealth (updateTime fl rnd clk delta pos s) = maxHealth s"
  by (simp add: updateTime_def Let_def)

lemma takeDamage_health:
  "0 \<le> amount \<Longrightarrow> health s \<le> maxHealth s \<Longrightarrow> 0 \<le> maxHealth s \<Longrightarrow>
     health (takeDamage amount s) \<le> maxHealth (takeDamage amount s)"
  by (simp add: takeDamage_def endGame_def Let_def)

lemma perform_no_overheal:
  assumes "\<forall>i. a \<noteq> CollectFood i" and "\<forall>x. a = TakeDamage x \<longrightarrow> 0 \<le> x"
    and "health s \<le> maxHealth s" and "0 \<le> maxHealth s"
  shows "health (perform a s) \<le> maxHealth (perform a s)"
proof (cases a)
  case (CollectLooseLog now now2 ident)
  with collect_health(1) [of s now now2 ident] assms(3) show ?thesis by simp
next
  case (CollectLog now now2 ident)
  with collect_health(2) [of s now now2 ident] assms(3) show ?thesis by simp
next
  case (TakeDamage x)
  with assms takeDamage_health [of x s] show ?thesis by simp
next
  case (UpdateTime fl rnd clk delta pos)
  with updateTime_health [OF assms(3), of fl rnd clk delta pos] assms(3) show ?thesis by simp
next
  case (CollectFood i)
  with assms(1) show ?thesis by simp
qed (use assms(3) in \<open>simp_all add: damageTree_health tickDestruction_health placeStructure_health
      startGame_def endGame_def cycleCameraMode_def addWood_def endCombo_def expireLooseLog_def
      dismissNotification_def closeBuildMenu_def selectBlueprint_def
      placeLog_def setActiveTree_def updateDamIntegrity_def heal_def
      openBuildMenu_def updatePlacementRotation_def
      setDestroyTarget_def startDestroying_def stopDestroying_def checkPowerups_def
      startChompingSession_def spawnMob_def removeMob_def checkCombo_def Let_def
      split: option.splits prod.splits\<close>)

lemma perform_maxHealth: "maxHealth s = 100 \<Longrightarrow> maxHealth (perform a s) = 100"
proof (cases a)
  case (CollectLooseLog now now2 ident)
  with collect_health(1) [of s now now2 ident] show "maxHealth s = 100 \<Longrightarrow> ?thesis" by simp
next
  case (CollectLog now now2 ident)
  with collect_health(2) [of s now now2 ident] show "maxHealth s = 100 \<Longrightarrow> ?thesis" by simp
qed (simp_all add: damageTree_health tickDestruction_health placeStructure_health
      updateTime_def takeDamage_def collectFood_def
      startGame_def endGame_def cycleCameraMode_def addWood_def endCombo_def expireLooseLog_def
      dismissNotification_def closeBuildMenu_def selectBlueprint_def
      placeLog_def setActiveTree_def updateDamIntegrity_def heal_def
      openBuildMenu_def updatePlacementRotation_def
      setDestroyTarget_def startDestroying_def stopDestroying_def checkPowerups_def
      startChompingSession_def spawnMob_def removeMob_def checkCombo_def Let_def
      split: option.splits prod.splits)

lemma store_maxHealth: "maxHealth (performAll as (initialState ts bs bps)) = 100"
proof -
  have "maxHealth s = 100 \<Longrightarrow> maxHealth (performAll as s) = 100" for s
    by (induction as arbitrary: s) (simp_all add: perform_maxHealth)
  then show ?thesis by (simp add: initialState_def)
qed

lemma fed_facts:
  "health fedDemo = 100" "maxHealth fedDemo = 100"
  "find (\<lambda>f. food_id f = ''food-1'') (food fedDemo) = Some (hd (food fedDemo))"
  "food_type (hd (food fedDemo)) = apple"
  "health (collectFood ''food-1'' fedDemo) = 120"
  "maxHealth (collectFood ''food-1'' fedDemo) = 100"
  by code_simp+

text \<open>
  C10. After \<open>heal(amount)\<close> the health is \<open>min(maxHealth, health + amount)\<close> in every state,
  so \<open>heal\<close> never leaves the health above \<open>maxHealth\<close>. \<open>collectFood\<close> can raise the health
  above \<open>maxHealth\<close> (an apple at full health 100 gives 120), and on an existing food it
  sets the health to \<open>min(2 * maxHealth, health + 20)\<close> for an apple and \<open>+ 10\<close> otherwise, at
  most \<open>2 * maxHealth\<close>. No other action raises the health above \<open>maxHealth\<close>: in every state
  of the store (reached from the initial state by any actions) with \<open>health \<le> maxHealth\<close>,
  every action other than \<open>collectFood\<close>, \<open>takeDamage\<close> being called with a damage amount
  that is not negative, leaves \<open>health \<le> maxHealth\<close>.
\<close>

theorem C10_heal_and_overheal:
  "health (heal amount s) = min (maxHealth s) (health s + amount)
 \<and> health (heal amount s) \<le> maxHealth (heal amount s)
 \<and> (\<forall>fd. find (\<lambda>f. food_id f = ident) (food s) = Some fd \<longrightarrow>
        health (collectFood ident s)
          = min (maxHealth s * 2) (health s + (if food_type fd = apple then 20 else 10))
      \<and> health (collectFood ident s) \<le> 2 * maxHealth (collectFood ident s))
 \<and> (find (\<lambda>f. food_id f = ident) (food s) = None \<longrightarrow> collectFood ident s = s)
 \<and> health fedDemo \<le> maxHealth fedDemo
 \<and> maxHealth (collectFood ''food-1'' fedDemo) < health (collectFood ''food-1'' fedDemo)
 \<and> ((\<forall>i. a \<noteq> CollectFood i) \<and> (\<forall>x. a = TakeDamage x \<longrightarrow> 0 \<le> x)
      \<and> health (performAll pre (initialState ts bs bps))
           \<le> maxHealth (performAll pre (initialState ts bs bps))
      \<longrightarrow> health (perform a (performAll pre (initialState ts bs bps)))
           \<le> maxHealth (perform a (performAll pre (initialState ts bs bps))))"
proof -
  have 1: "health (heal amount s) = min (maxHealth s) (health s + amount)
      \<and> health (heal amount s) \<le> maxHealth (heal amount s)"
    by (simp add: heal_def)
  have 2: "\<forall>fd. find (\<lambda>f. food_id f = ident) (food s) = Some fd \<longrightarrow>
        health (collectFood ident s)
          = min (maxHealth s * 2) (health s + (if food_type fd = apple then 20 else 10))
      \<and> health (collectFood ident s) \<le> 2 * maxHealth (collectFood ident s)"
    by (simp add: collectFood_def Let_def min_def)
  have 3: "find (\<lambda>f. food_id f = ident) (food s) = None \<longrightarrow> collectFood ident s = s"
    by (simp add: collectFood_def)
  have 4: "health fedDemo \<le> maxHealth fedDemo
      \<and> maxHealth (collectFood ''food-1'' fedDemo) < health (collectFood ''food-1'' fedDemo)"
    by (simp add: fed_facts)
  have 5: "(\<forall>i. a \<noteq> CollectFood i) \<and> (\<forall>x. a = TakeDamage x \<longrightarrow> 0 \<le> x)
      \<and> health (performAll pre (initialState ts bs bps))
           \<le> maxHealth (performAll pre (initialState ts bs bps))
      \<longrightarrow> health (perform a (performAll pre (initialState ts bs bps)))
           \<le> maxHealth (perform a (performAll pre (initialState ts bs bps)))"
    using perform_no_overheal [of a "performAll pre (initialState ts bs bps)"]
      store_maxHealth [of pre ts bs bps]
    by simp
  from 1 2 3 4 5 show ?thesis by blast
qed

lemma fed_reached:
  "performAll [StartGame] (initialState [] [] plainCatalog) = startGame (initialState [] [] plainCatalog)"
  "health (startGame (initialState [] [] plainCatalog)) = 100"
  "maxHealth (startGame (initialState [] [] plainCatalog)) = 100"
  by (simp_all add: startGame_def)

theorem C10_witness:
  "health fedDemo = 100 \<and> maxHealth fedDemo = 100
   \<and> health (heal 50 fedDemo) = 100
   \<and> find (\<lambda>f. food_id f = ''food-1'') (food fedDemo) = Some (hd (food fedDemo))
   \<and> health (collectFood ''food-1'' fedDemo) = 120
   \<and> health (collectFood ''food-1'' fedDemo) \<le> 2 * maxHealth (collectFood ''food-1'' fedDemo)
   \<and> health (performAll [StartGame] (initialState [] [] plainCatalog))
        \<le> maxHealth (performAll [StartGame] (initialState [] [] plainCatalog))
   \<and> health (perform (TakeDamage 30) (performAll [StartGame] (initialState [] [] plainCatalog)))
        \<le> maxHealth (perform (TakeDamage 30) (performAll [StartGame] (initialState [] [] plainCatalog)))"
proof -
  note th = C10_heal_and_overheal [where s=fedDemo and amount=50 and ident="''food-1''"
      and a="TakeDamage 30" and pre="[StartGame]" and ts="[]" and bs="[]" and bps=plainCatalog]
  from th have 1: "health (heal 50 fedDemo) = min (maxHealth fedDemo) (health fedDemo + 50)"
    by blast
  from th fed_facts(3)
  have 2: "health (collectFood ''food-1'' fedDemo) \<le> 2 * maxHealth (collectFood ''food-1'' fedDemo)"
    by blast
  have pre: "health (performAll [StartGame] (initialState [] [] plainCatalog))
        \<le> maxHealth (performAll [StartGame] (initialState [] [] plainCatalog))"
    by (simp add: fed_reached)
  have "(\<forall>i. TakeDamage 30 \<noteq> CollectFood i) \<and> (\<forall>x. TakeDamage 30 = TakeDamage x \<longrightarrow> (0::real) \<le> x)"
    by simp
  with th pre
  have 3: "health (perform (TakeDamage 30) (performAll [StartGame] (initialState [] [] plainCatalog)))
        \<le> maxHealth (perform (TakeDamage 30) (performAll [StartGame] (initialState [] [] plainCatalog)))"
    by blast
  from 1 2 3 pre fed_facts show ?thesis by simp
qed

end
